theory Spec2Isabelle
  imports Complex_Main "HOL-Library.Sublist" "HOL-Library.AList"
begin

section \<open>JavaScript and Java primitives used by the clients\<close>

text \<open>
  Strings are lists of code units; a \<^typ>\<open>char\<close> stands for a code unit below 256.
  The Cyrillic literals of the sources are written in Latin transliteration and the
  emoji as a bracketed name, since this file is ASCII.
\<close>

definition js_whitespace :: "char \<Rightarrow> bool" where
  "js_whitespace c = (of_char c \<in> {9::nat, 10, 11, 12, 13, 32, 160})"

text \<open>\<^verbatim>\<open>String.prototype.trim\<close>: white space is removed at both ends.\<close>

definition trim :: "string \<Rightarrow> string" where
  "trim s = rev (dropWhile js_whitespace (rev (dropWhile js_whitespace s)))"

text \<open>Java's \<^verbatim>\<open>String.trim()\<close> removes the code units up to U+0020 at both ends.\<close>

definition java_trim :: "string \<Rightarrow> string" where
  "java_trim s =
     rev (dropWhile (\<lambda>c. of_char c \<le> (32::nat)) (rev (dropWhile (\<lambda>c. of_char c \<le> (32::nat)) s)))"

text \<open>
  Truthiness of a \<^verbatim>\<open>string | null\<close> value: \<^verbatim>\<open>null\<close> and the empty string are falsy.
\<close>

definition truthy :: "string option \<Rightarrow> bool" where
  "truthy s = (case s of None \<Rightarrow> False | Some t \<Rightarrow> t \<noteq> [])"

text \<open>\<^verbatim>\<open>s || undefined\<close> and \<^verbatim>\<open>s || null\<close> on a \<^verbatim>\<open>string | null | undefined\<close>.\<close>

definition or_undefined :: "string option \<Rightarrow> string option" where
  "or_undefined s = (if truthy s then s else None)"

definition digit_char :: "nat \<Rightarrow> char" where
  "digit_char d = char_of (48 + d)"

text \<open>
  \<^verbatim>\<open>String(n)\<close> in JavaScript and \<^verbatim>\<open>String.valueOf(n)\<close> in Java for a non-negative
  integer \<open>n\<close> (an array index plus one): its decimal digits.
\<close>

fun String_of :: "nat \<Rightarrow> string" where
  "String_of n = (if n < 10 then [digit_char n] else String_of (n div 10) @ [digit_char (n mod 10)])"

declare String_of.simps [simp del]

section \<open>The API client (src/frontend/src/api/client.ts)\<close>

datatype response_type = Answer | Clarification

record SuggestedTopic =
  title :: string
  article_id :: string
  snippet :: string

text \<open>
  \<^verbatim>\<open>ChatResponse\<close>. The interface in client.ts ends with \<open>has_images\<close>; the fields
  \<open>response_type\<close> and \<open>suggested_topics\<close> are those that \<^verbatim>\<open>ChatPage\<close>, the
  clarification-aware \<^verbatim>\<open>ChatWidget\<close> and the desktop client read from the same response
  (\<^verbatim>\<open>response.suggested_topics || undefined\<close>: the list may be absent). The clients only
  test \<open>response_type\<close> against \<^verbatim>\<open>'clarification'\<close>; every other value behaves as
  \<^verbatim>\<open>'answer'\<close>.
\<close>

record ChatResponse =
  answer :: string
  session_id :: string
  confidence :: real
  needs_escalation :: bool
  source_articles :: "string list"
  youtube_links :: "string list"
  has_images :: bool
  response_type :: response_type
  suggested_topics :: "SuggestedTopic list option"

record EscalationResponse =
  escalation_id :: string
  status :: string
  message :: string
  position_in_queue :: int

datatype role = User | Assistant

record ChatMessage =
  role_c :: role
  content_c :: string
  timestamp :: "string option"

record EscalationDetail =
  escalation_id_d :: string
  session_id_d :: string
  status_d :: string
  reason :: "string option"
  contact_info :: "string option"
  chat_history :: "ChatMessage list"
  created_at :: string
  updated_at :: "string option"
  operator_notes :: "string option"

record EscalationList =
  escalations_l :: "EscalationDetail list"
  total :: int
  pending_count :: int

record LoginResponse =
  token_l :: string
  username_l :: string

text \<open>
  What \<^verbatim>\<open>fetch\<close> gives back for one request: the promise rejects (no connection), or a
  response arrives with a status code and a body that \<^verbatim>\<open>res.json()\<close> parses or not.
\<close>

datatype 'a fetch_result = NetworkError | HttpResponse nat "'a option"

datatype api_error = FetchFailed | ApiError nat | JsonError

definition res_ok :: "nat \<Rightarrow> bool" where
  "res_ok st = (200 \<le> st \<and> st \<le> 299)"

text \<open>
  The tail shared by \<^verbatim>\<open>sendMessage\<close>, \<^verbatim>\<open>createEscalation\<close>, \<^verbatim>\<open>operatorLogin\<close> and
  \<^verbatim>\<open>getEscalations\<close>: \<^verbatim>\<open>if (!res.ok) throw new Error(...); return res.json()\<close>.
\<close>

fun api_result :: "'a fetch_result \<Rightarrow> api_error + 'a" where
  "api_result NetworkError = Inl FetchFailed"
| "api_result (HttpResponse st body) =
     (if \<not> res_ok st then Inl (ApiError st)
      else case body of None \<Rightarrow> Inl JsonError | Some v \<Rightarrow> Inr v)"

text \<open>\<^verbatim>\<open>operatorReply\<close> does not read the body.\<close>

fun api_result_void :: "'a fetch_result \<Rightarrow> api_error + unit" where
  "api_result_void NetworkError = Inl FetchFailed"
| "api_result_void (HttpResponse st body) = (if \<not> res_ok st then Inl (ApiError st) else Inr ())"

text \<open>
  The requests as they go over the wire: the JSON body (and bearer token) each method
  of \<^verbatim>\<open>ApiClient\<close> builds. \<open>None\<close> is \<^verbatim>\<open>null\<close> or an omitted field.
\<close>

datatype request =
    ChatReq string "string option"
  | EscalationReq string "string option" "string option"
  | FeedbackReq string int int
  | LoginReq string string
  | ListReq string "string option"
  | ReplyReq string string string bool

definition ApiClient_sendMessage :: "string \<Rightarrow> string option \<Rightarrow> request" where
  "ApiClient_sendMessage msg sessionId = ChatReq msg (or_undefined sessionId)"

definition ApiClient_createEscalation :: "string \<Rightarrow> string option \<Rightarrow> string option \<Rightarrow> request" where
  "ApiClient_createEscalation sessionId rsn contactInfo = EscalationReq sessionId rsn contactInfo"

definition ApiClient_sendFeedback :: "string \<Rightarrow> int \<Rightarrow> int \<Rightarrow> request" where
  "ApiClient_sendFeedback sessionId rating messageIndex = FeedbackReq sessionId rating messageIndex"

definition ApiClient_operatorLogin :: "string \<Rightarrow> string \<Rightarrow> request" where
  "ApiClient_operatorLogin user pass = LoginReq user pass"

definition ApiClient_getEscalations :: "string \<Rightarrow> string option \<Rightarrow> request" where
  "ApiClient_getEscalations tok st = ListReq tok (or_undefined st)"

definition ApiClient_operatorReply :: "string \<Rightarrow> string \<Rightarrow> string \<Rightarrow> bool \<Rightarrow> request" where
  "ApiClient_operatorReply tok escalationId msg closeTicket = ReplyReq tok escalationId msg closeTicket"

section \<open>Messages and the state shared by the two chat components\<close>

record Message =
  role :: role
  content :: string
  confidence_m :: "real option"
  needsEscalation :: "bool option"
  youtubeLinks :: "string list option"
  sourceArticles :: "string list option"
  suggestedTopics :: "SuggestedTopic list option"
  responseType :: "response_type option"

definition plain :: "role \<Rightarrow> string \<Rightarrow> Message" where
  "plain r c = \<lparr> role = r, content = c, confidence_m = None, needsEscalation = None,
     youtubeLinks = None, sourceArticles = None, suggestedTopics = None, responseType = None \<rparr>"

text \<open>The \<^verbatim>\<open>useState\<close> cells that \<^verbatim>\<open>ChatPage\<close> and \<^verbatim>\<open>ChatWidget\<close> both declare.\<close>

record chat_state =
  messages :: "Message list"
  input :: string
  loading :: bool
  sessionId :: "string option"

record ChatPage = chat_state +
  showEscalation :: bool
  escalationSent :: bool
  contactInfo :: string
  escalationReason :: string

record ChatWidget = chat_state +
  isOpen :: bool
  unread :: nat

section \<open>ChatPage (src/unnamed/part_001, first file)\<close>

definition PAGE_GREETING :: string where
  "PAGE_GREETING = ''Zdravstvujte! Ja II-assistent tehpodderzhki Farmbazis. Zadajte vopros po rabote s programmoj.''"

definition PAGE_SEND_ERROR :: string where
  "PAGE_SEND_ERROR = ''Oshibka obrabotki zaprosa. Poprobujte pozzhe ili obratites' k operatoru.''"

definition PAGE_TOPIC_ERROR :: string where
  "PAGE_TOPIC_ERROR = ''Oshibka obrabotki. Poprobujte pozzhe.''"

definition PAGE_ESCALATION_ERROR :: string where
  "PAGE_ESCALATION_ERROR = ''Ne udalos' sozdat' zajavku. Poprobujte eshhjo raz.''"

definition CHECK_MARK :: string where
  "CHECK_MARK = ''[check] ''"

definition ChatPage_init :: ChatPage where
  "ChatPage_init = \<lparr> messages = [plain Assistant PAGE_GREETING], input = [], loading = False,
     sessionId = None, showEscalation = False, escalationSent = False, contactInfo = [],
     escalationReason = [] \<rparr>"

definition ChatPage_botMessage :: "ChatResponse \<Rightarrow> Message" where
  "ChatPage_botMessage response = \<lparr> role = Assistant, content = answer response,
     confidence_m = Some (confidence response),
     needsEscalation = Some (needs_escalation response),
     youtubeLinks = Some (youtube_links response),
     sourceArticles = Some (source_articles response),
     suggestedTopics = suggested_topics response,
     responseType = Some (response_type response) \<rparr>"

text \<open>
  The part of \<^verbatim>\<open>sendMessage\<close> and \<^verbatim>\<open>handleTopicSelect\<close> inside \<^verbatim>\<open>try\<close>, after the
  response has arrived. \<open>held\<close> is the \<^verbatim>\<open>sessionId\<close> the handler closed over.
\<close>

definition ChatPage_onResponse :: "string option \<Rightarrow> ChatResponse \<Rightarrow> ChatPage \<Rightarrow> ChatPage" where
  "ChatPage_onResponse held response st =
     (let st1 = (if \<not> truthy held then st\<lparr>sessionId := Some (session_id response)\<rparr> else st);
          st2 = st1\<lparr>messages := messages st1 @ [ChatPage_botMessage response]\<rparr>
      in if needs_escalation response \<and> response_type response \<noteq> Clarification
         then st2\<lparr>showEscalation := True\<rparr> else st2)"

text \<open>
  A handler takes the outcome of the one request it awaits and returns the state after
  \<^verbatim>\<open>finally\<close> together with the requests it has issued, in order.
\<close>

definition ChatPage_sendMessage :: "ChatResponse fetch_result \<Rightarrow> ChatPage \<Rightarrow> ChatPage \<times> request list" where
  "ChatPage_sendMessage res st =
     (let trimmed = trim (input st) in
      if trimmed = [] \<or> loading st then (st, [])
      else
        let st1 = st\<lparr>messages := messages st @ [plain User trimmed], input := [], loading := True\<rparr>;
            req = ApiClient_sendMessage trimmed (or_undefined (sessionId st));
            st2 = (case api_result res of
                     Inr response \<Rightarrow> ChatPage_onResponse (sessionId st) response st1
                   | Inl err \<Rightarrow> st1\<lparr>messages := messages st1 @ [plain Assistant PAGE_SEND_ERROR]\<rparr>)
        in (st2\<lparr>loading := False\<rparr>, [req]))"

definition ChatPage_handleTopicSelect ::
    "nat \<Rightarrow> ChatResponse fetch_result \<Rightarrow> ChatPage \<Rightarrow> ChatPage \<times> request list" where
  "ChatPage_handleTopicSelect topicIndex res st =
     (if loading st then (st, [])
      else
        let text = String_of (topicIndex + 1);
            st1 = st\<lparr>messages := messages st @ [plain User text], loading := True\<rparr>;
            req = ApiClient_sendMessage text (or_undefined (sessionId st));
            st2 = (case api_result res of
                     Inr response \<Rightarrow> ChatPage_onResponse (sessionId st) response st1
                   | Inl err \<Rightarrow> st1\<lparr>messages := messages st1 @ [plain Assistant PAGE_TOPIC_ERROR]\<rparr>)
        in (st2\<lparr>loading := False\<rparr>, [req]))"

definition ChatPage_handleEscalation ::
    "EscalationResponse fetch_result \<Rightarrow> ChatPage \<Rightarrow> ChatPage \<times> request list" where
  "ChatPage_handleEscalation res st =
     (case sessionId st of
        None \<Rightarrow> (st, [])
      | Some sid \<Rightarrow>
          if sid = [] then (st, [])
          else
            let req = ApiClient_createEscalation sid
                        (or_undefined (Some (escalationReason st)))
                        (or_undefined (Some (contactInfo st)))
            in case api_result res of
                 Inr response \<Rightarrow>
                   (st\<lparr>messages := messages st @ [plain Assistant (CHECK_MARK @ message response)],
                       escalationSent := True, showEscalation := False\<rparr>, [req])
               | Inl err \<Rightarrow>
                   (st\<lparr>messages := messages st @ [plain Assistant PAGE_ESCALATION_ERROR]\<rparr>, [req]))"

text \<open>\<^verbatim>\<open>handleFeedback\<close>: the outcome of the request is ignored.\<close>

definition ChatPage_handleFeedback :: "int \<Rightarrow> ChatPage \<Rightarrow> ChatPage \<times> request list" where
  "ChatPage_handleFeedback rating st =
     (case sessionId st of
        None \<Rightarrow> (st, [])
      | Some sid \<Rightarrow>
          if sid = [] then (st, [])
          else (st, [ApiClient_sendFeedback sid rating (int (length (messages st)) - 1)]))"

subsection \<open>What ChatPage renders\<close>

datatype element =
    Avatar role
  | Markdown string
  | YoutubeBlock "string list"
  | YoutubeLink string
  | TopicButton nat string string bool
  | OtherTopicButton
  | FeedbackButtons
  | EscalationButton
  | TypingIndicator
  | EscalationPanel string string
  | InputArea string bool bool
  | ToggleButton bool "nat option"

text \<open>
  \<open>TopicButton j label snippet disabled\<close>: the button whose click calls
  \<^verbatim>\<open>handleTopicSelect(j)\<close>, with the label \<^verbatim>\<open>{j + 1}. {topic.title}\<close>.
\<close>

definition topic_buttons :: "bool \<Rightarrow> SuggestedTopic list \<Rightarrow> element list" where
  "topic_buttons dis topics =
     map (\<lambda>(j, topic). TopicButton j (String_of (j + 1) @ ''. '' @ title topic) (snippet topic) dis)
         (enumerate 0 topics)"

definition clarification_block :: "bool \<Rightarrow> Message \<Rightarrow> element list" where
  "clarification_block dis msg =
     (case suggestedTopics msg of
        None \<Rightarrow> []
      | Some topics \<Rightarrow>
          if responseType msg = Some Clarification \<and> 0 < length topics
          then topic_buttons dis topics @ [OtherTopicButton] else [])"

definition ChatPage_renderMessage :: "bool \<Rightarrow> nat \<Rightarrow> Message \<Rightarrow> element list" where
  "ChatPage_renderMessage dis i msg =
     [Avatar (role msg), Markdown (content msg)]
     @ (case youtubeLinks msg of
          None \<Rightarrow> []
        | Some links \<Rightarrow> if 0 < length links then [YoutubeBlock links] else [])
     @ clarification_block dis msg
     @ (if role msg = Assistant \<and> 0 < i then [FeedbackButtons] else [])"

definition ChatPage_render :: "ChatPage \<Rightarrow> element list" where
  "ChatPage_render st =
     concat (map (\<lambda>(i, msg). ChatPage_renderMessage (loading st) i msg) (enumerate 0 (messages st)))
     @ (if loading st then [Avatar Assistant, TypingIndicator] else [])
     @ (if showEscalation st \<and> \<not> escalationSent st
        then [EscalationPanel (contactInfo st) (escalationReason st)] else [])
     @ [InputArea (input st) (loading st) (trim (input st) = [] \<or> loading st)]"

text \<open>
  The user's actions on the page. An action that awaits a request carries the
  outcome of that request. \<open>ChatPage_offered\<close> says which controls the render above
  contains (and has enabled); the Enter key reaches \<^verbatim>\<open>sendMessage\<close> at any time.
\<close>

datatype page_event =
    SetInput string
  | Send "ChatResponse fetch_result"
  | ClickTopic nat nat "ChatResponse fetch_result"
  | ClickFeedback nat int
  | SetContactInfo string
  | SetEscalationReason string
  | ClickEscalate "EscalationResponse fetch_result"
  | ClickContinue

definition has_topic :: "Message list \<Rightarrow> nat \<Rightarrow> nat \<Rightarrow> bool" where
  "has_topic ms i j =
     (i < length ms \<and> responseType (ms ! i) = Some Clarification \<and>
      (case suggestedTopics (ms ! i) of None \<Rightarrow> False | Some topics \<Rightarrow> j < length topics))"

fun ChatPage_offered :: "ChatPage \<Rightarrow> page_event \<Rightarrow> bool" where
  "ChatPage_offered st (SetInput v) = (\<not> loading st)"
| "ChatPage_offered st (Send res) = True"
| "ChatPage_offered st (ClickTopic i j res) = (has_topic (messages st) i j \<and> \<not> loading st)"
| "ChatPage_offered st (ClickFeedback i rating) =
     (i < length (messages st) \<and> role (messages st ! i) = Assistant \<and> 0 < i)"
| "ChatPage_offered st (SetContactInfo v) = (showEscalation st \<and> \<not> escalationSent st)"
| "ChatPage_offered st (SetEscalationReason v) = (showEscalation st \<and> \<not> escalationSent st)"
| "ChatPage_offered st (ClickEscalate res) = (showEscalation st \<and> \<not> escalationSent st)"
| "ChatPage_offered st ClickContinue = (showEscalation st \<and> \<not> escalationSent st)"

fun ChatPage_handle :: "page_event \<Rightarrow> ChatPage \<Rightarrow> ChatPage \<times> request list" where
  "ChatPage_handle (SetInput v) st = (st\<lparr>input := v\<rparr>, [])"
| "ChatPage_handle (Send res) st = ChatPage_sendMessage res st"
| "ChatPage_handle (ClickTopic i j res) st = ChatPage_handleTopicSelect j res st"
| "ChatPage_handle (ClickFeedback i rating) st = ChatPage_handleFeedback rating st"
| "ChatPage_handle (SetContactInfo v) st = (st\<lparr>contactInfo := v\<rparr>, [])"
| "ChatPage_handle (SetEscalationReason v) st = (st\<lparr>escalationReason := v\<rparr>, [])"
| "ChatPage_handle (ClickEscalate res) st = ChatPage_handleEscalation res st"
| "ChatPage_handle ClickContinue st = (st\<lparr>showEscalation := False\<rparr>, [])"

definition ChatPage_step :: "page_event \<Rightarrow> ChatPage \<Rightarrow> ChatPage \<times> request list" where
  "ChatPage_step ev st = (if ChatPage_offered st ev then ChatPage_handle ev st else (st, []))"

text \<open>A session of the page: the events in order, the requests collected.\<close>

fun ChatPage_run :: "page_event list \<Rightarrow> ChatPage \<Rightarrow> ChatPage \<times> request list" where
  "ChatPage_run [] st = (st, [])"
| "ChatPage_run (ev # evs) st =
     (let (st1, rs1) = ChatPage_step ev st; (st2, rs2) = ChatPage_run evs st1
      in (st2, rs1 @ rs2))"

section \<open>ChatWidget (src/frontend/src/widget/ChatWidget.tsx)\<close>

definition WIDGET_GREETING :: string where
  "WIDGET_GREETING = ''Zdravstvujte! Chem mogu pomoch'? [pill]''"

definition WIDGET_HINT :: string where
  "WIDGET_HINT = ''[bulb] Ja ne nashjol tochnogo otveta. Nazhmite knopku nizhe, chtoby svjazat'sja s operatorom, ili zadajte vopros inache.''"

definition WIDGET_ERROR :: string where
  "WIDGET_ERROR = ''Oshibka soedinenija. Poprobujte pozzhe.''"

definition ChatWidget_init :: ChatWidget where
  "ChatWidget_init = \<lparr> messages = [plain Assistant WIDGET_GREETING], input = [], loading = False,
     sessionId = None, isOpen = False, unread = 0 \<rparr>"

text \<open>This file's \<^verbatim>\<open>Message\<close> has no \<open>responseType\<close> and no \<open>suggestedTopics\<close>.\<close>

definition ChatWidget_botMsg :: "ChatResponse \<Rightarrow> Message" where
  "ChatWidget_botMsg response = (plain Assistant (answer response))
     \<lparr> youtubeLinks := Some (youtube_links response),
       needsEscalation := Some (needs_escalation response) \<rparr>"

definition ChatWidget_sendMessage ::
    "ChatResponse fetch_result \<Rightarrow> ChatWidget \<Rightarrow> ChatWidget \<times> request list" where
  "ChatWidget_sendMessage res st =
     (let trimmed = trim (input st) in
      if trimmed = [] \<or> loading st then (st, [])
      else
        let st1 = st\<lparr>messages := messages st @ [plain User trimmed], input := [], loading := True\<rparr>;
            req = ApiClient_sendMessage trimmed (or_undefined (sessionId st));
            st2 = (case api_result res of
                     Inr response \<Rightarrow>
                       let s1 = (if \<not> truthy (sessionId st)
                                 then st1\<lparr>sessionId := Some (session_id response)\<rparr> else st1);
                           s2 = s1\<lparr>messages := messages s1 @ [ChatWidget_botMsg response]\<rparr>;
                           s3 = (if \<not> isOpen st then s2\<lparr>unread := unread s2 + 1\<rparr> else s2)
                       in if needs_escalation response \<and> session_id response \<noteq> []
                          then s3\<lparr>messages := messages s3 @ [plain Assistant WIDGET_HINT]\<rparr> else s3
                   | Inl err \<Rightarrow> st1\<lparr>messages := messages st1 @ [plain Assistant WIDGET_ERROR]\<rparr>)
        in (st2\<lparr>loading := False\<rparr>, [req]))"

text \<open>\<^verbatim>\<open>handleEscalation\<close>: a failure is ignored; there is no other state.\<close>

definition ChatWidget_handleEscalation ::
    "EscalationResponse fetch_result \<Rightarrow> ChatWidget \<Rightarrow> ChatWidget \<times> request list" where
  "ChatWidget_handleEscalation res st =
     (case sessionId st of
        None \<Rightarrow> (st, [])
      | Some sid \<Rightarrow>
          if sid = [] then (st, [])
          else
            let req = ApiClient_createEscalation sid None None
            in case api_result res of
                 Inr r \<Rightarrow>
                   (st\<lparr>messages := messages st @ [plain Assistant (CHECK_MARK @ message r)]\<rparr>, [req])
               | Inl err \<Rightarrow> (st, [req]))"

definition ChatWidget_renderMessage :: "Message \<Rightarrow> element list" where
  "ChatWidget_renderMessage msg =
     [Markdown (content msg)]
     @ (case youtubeLinks msg of None \<Rightarrow> [] | Some links \<Rightarrow> map YoutubeLink links)
     @ (if needsEscalation msg = Some True then [EscalationButton] else [])"

text \<open>\<open>pathname\<close> is \<^verbatim>\<open>window.location.pathname\<close>.\<close>

definition ChatWidget_render :: "string \<Rightarrow> ChatWidget \<Rightarrow> element list" where
  "ChatWidget_render pathname st =
     (if prefix ''/operator'' pathname then []
      else
        [ToggleButton (isOpen st) (if \<not> isOpen st \<and> 0 < unread st then Some (unread st) else None)]
        @ (if isOpen st
           then concat (map ChatWidget_renderMessage (messages st))
                @ (if loading st then [TypingIndicator] else [])
                @ [InputArea (input st) (loading st) (trim (input st) = [] \<or> loading st)]
           else []))"

datatype widget_event =
    WToggle
  | WClose
  | WSetInput string
  | WSend "ChatResponse fetch_result"
  | WClickTopic nat nat "ChatResponse fetch_result"
  | WClickEscalation nat "EscalationResponse fetch_result"

text \<open>
  The effect on \<^verbatim>\<open>[messages, isOpen]\<close>: an open widget resets the unread counter.
\<close>

definition ChatWidget_effect :: "ChatWidget \<Rightarrow> ChatWidget" where
  "ChatWidget_effect st = (if isOpen st then st\<lparr>unread := 0\<rparr> else st)"

fun ChatWidget_offered :: "ChatWidget \<Rightarrow> widget_event \<Rightarrow> bool" where
  "ChatWidget_offered st WToggle = True"
| "ChatWidget_offered st WClose = isOpen st"
| "ChatWidget_offered st (WSetInput v) = (isOpen st \<and> \<not> loading st)"
| "ChatWidget_offered st (WSend res) = isOpen st"
| "ChatWidget_offered st (WClickTopic i j res) = False"
| "ChatWidget_offered st (WClickEscalation i res) =
     (isOpen st \<and> i < length (messages st) \<and> needsEscalation (messages st ! i) = Some True)"

fun ChatWidget_handle :: "widget_event \<Rightarrow> ChatWidget \<Rightarrow> ChatWidget \<times> request list" where
  "ChatWidget_handle WToggle st = (st\<lparr>isOpen := \<not> isOpen st\<rparr>, [])"
| "ChatWidget_handle WClose st = (st\<lparr>isOpen := False\<rparr>, [])"
| "ChatWidget_handle (WSetInput v) st = (st\<lparr>input := v\<rparr>, [])"
| "ChatWidget_handle (WSend res) st = ChatWidget_sendMessage res st"
| "ChatWidget_handle (WClickTopic i j res) st = (st, [])"
| "ChatWidget_handle (WClickEscalation i res) st = ChatWidget_handleEscalation res st"

definition ChatWidget_step :: "widget_event \<Rightarrow> ChatWidget \<Rightarrow> ChatWidget \<times> request list" where
  "ChatWidget_step ev st =
     (if ChatWidget_offered st ev
      then (let (st1, rs) = ChatWidget_handle ev st in (ChatWidget_effect st1, rs))
      else (st, []))"

fun ChatWidget_run :: "widget_event list \<Rightarrow> ChatWidget \<Rightarrow> ChatWidget \<times> request list" where
  "ChatWidget_run [] st = (st, [])"
| "ChatWidget_run (ev # evs) st =
     (let (st1, rs1) = ChatWidget_step ev st; (st2, rs2) = ChatWidget_run evs st1
      in (st2, rs1 @ rs2))"

section \<open>ChatWidget with clarification (src/unnamed/part_001, third file)\<close>

text \<open>
  The second copy of the component reads \<open>response_type\<close> and \<open>suggested_topics\<close>;
  its definitions carry the suffix \<open>2\<close>. Greeting, error text, \<^verbatim>\<open>handleEscalation\<close> and
  the unread effect are those of the first copy.
\<close>

definition WIDGET_HINT2 :: string where
  "WIDGET_HINT2 = ''[bulb] Otvet ne najden. Svjazhites' s operatorom ili zadajte vopros inache.''"

definition ChatWidget2_botMsg :: "ChatResponse \<Rightarrow> Message" where
  "ChatWidget2_botMsg response = (plain Assistant (answer response))
     \<lparr> youtubeLinks := Some (youtube_links response),
       needsEscalation := Some (needs_escalation response),
       suggestedTopics := suggested_topics response,
       responseType := Some (response_type response) \<rparr>"

definition ChatWidget2_sendMessage ::
    "ChatResponse fetch_result \<Rightarrow> ChatWidget \<Rightarrow> ChatWidget \<times> request list" where
  "ChatWidget2_sendMessage res st =
     (let trimmed = trim (input st) in
      if trimmed = [] \<or> loading st then (st, [])
      else
        let st1 = st\<lparr>messages := messages st @ [plain User trimmed], input := [], loading := True\<rparr>;
            req = ApiClient_sendMessage trimmed (or_undefined (sessionId st));
            st2 = (case api_result res of
                     Inr response \<Rightarrow>
                       let s1 = (if \<not> truthy (sessionId st)
                                 then st1\<lparr>sessionId := Some (session_id response)\<rparr> else st1);
                           s2 = s1\<lparr>messages := messages s1 @ [ChatWidget2_botMsg response]\<rparr>;
                           s3 = (if \<not> isOpen st then s2\<lparr>unread := unread s2 + 1\<rparr> else s2)
                       in if needs_escalation response \<and> session_id response \<noteq> []
                             \<and> response_type response \<noteq> Clarification
                          then s3\<lparr>messages := messages s3 @ [plain Assistant WIDGET_HINT2]\<rparr> else s3
                   | Inl err \<Rightarrow> st1\<lparr>messages := messages st1 @ [plain Assistant WIDGET_ERROR]\<rparr>)
        in (st2\<lparr>loading := False\<rparr>, [req]))"

definition ChatWidget2_handleTopicSelect ::
    "nat \<Rightarrow> ChatResponse fetch_result \<Rightarrow> ChatWidget \<Rightarrow> ChatWidget \<times> request list" where
  "ChatWidget2_handleTopicSelect topicIndex res st =
     (if loading st then (st, [])
      else
        let text = String_of (topicIndex + 1);
            st1 = st\<lparr>messages := messages st @ [plain User text], loading := True\<rparr>;
            req = ApiClient_sendMessage text (or_undefined (sessionId st));
            st2 = (case api_result res of
                     Inr response \<Rightarrow>
                       let s1 = (if \<not> truthy (sessionId st)
                                 then st1\<lparr>sessionId := Some (session_id response)\<rparr> else st1)
                       in s1\<lparr>messages := messages s1 @ [ChatWidget2_botMsg response]\<rparr>
                   | Inl err \<Rightarrow> st1\<lparr>messages := messages st1 @ [plain Assistant WIDGET_ERROR]\<rparr>)
        in (st2\<lparr>loading := False\<rparr>, [req]))"

definition ChatWidget2_renderMessage :: "bool \<Rightarrow> Message \<Rightarrow> element list" where
  "ChatWidget2_renderMessage dis msg =
     [Markdown (content msg)]
     @ (case youtubeLinks msg of None \<Rightarrow> [] | Some links \<Rightarrow> map YoutubeLink links)
     @ clarification_block dis msg
     @ (if needsEscalation msg = Some True \<and> responseType msg \<noteq> Some Clarification
        then [EscalationButton] else [])"

definition ChatWidget2_render :: "string \<Rightarrow> ChatWidget \<Rightarrow> element list" where
  "ChatWidget2_render pathname st =
     (if prefix ''/operator'' pathname then []
      else
        [ToggleButton (isOpen st) (if \<not> isOpen st \<and> 0 < unread st then Some (unread st) else None)]
        @ (if isOpen st
           then concat (map (ChatWidget2_renderMessage (loading st)) (messages st))
                @ (if loading st then [TypingIndicator] else [])
                @ [InputArea (input st) (loading st) (trim (input st) = [] \<or> loading st)]
           else []))"

fun ChatWidget2_offered :: "ChatWidget \<Rightarrow> widget_event \<Rightarrow> bool" where
  "ChatWidget2_offered st WToggle = True"
| "ChatWidget2_offered st WClose = isOpen st"
| "ChatWidget2_offered st (WSetInput v) = (isOpen st \<and> \<not> loading st)"
| "ChatWidget2_offered st (WSend res) = isOpen st"
| "ChatWidget2_offered st (WClickTopic i j res) =
     (isOpen st \<and> has_topic (messages st) i j \<and> \<not> loading st)"
| "ChatWidget2_offered st (WClickEscalation i res) =
     (isOpen st \<and> i < length (messages st) \<and> needsEscalation (messages st ! i) = Some True
      \<and> responseType (messages st ! i) \<noteq> Some Clarification)"

fun ChatWidget2_handle :: "widget_event \<Rightarrow> ChatWidget \<Rightarrow> ChatWidget \<times> request list" where
  "ChatWidget2_handle WToggle st = (st\<lparr>isOpen := \<not> isOpen st\<rparr>, [])"
| "ChatWidget2_handle WClose st = (st\<lparr>isOpen := False\<rparr>, [])"
| "ChatWidget2_handle (WSetInput v) st = (st\<lparr>input := v\<rparr>, [])"
| "ChatWidget2_handle (WSend res) st = ChatWidget2_sendMessage res st"
| "ChatWidget2_handle (WClickTopic i j res) st = ChatWidget2_handleTopicSelect j res st"
| "ChatWidget2_handle (WClickEscalation i res) st = ChatWidget_handleEscalation res st"

definition ChatWidget2_step :: "widget_event \<Rightarrow> ChatWidget \<Rightarrow> ChatWidget \<times> request list" where
  "ChatWidget2_step ev st =
     (if ChatWidget2_offered st ev
      then (let (st1, rs) = ChatWidget2_handle ev st in (ChatWidget_effect st1, rs))
      else (st, []))"

fun ChatWidget2_run :: "widget_event list \<Rightarrow> ChatWidget \<Rightarrow> ChatWidget \<times> request list" where
  "ChatWidget2_run [] st = (st, [])"
| "ChatWidget2_run (ev # evs) st =
     (let (st1, rs1) = ChatWidget2_step ev st; (st2, rs2) = ChatWidget2_run evs st1
      in (st2, rs1 @ rs2))"

section \<open>The desktop client (src/FarmbazisAIIntegration.java)\<close>

text \<open>
  \<^verbatim>\<open>FarmbazisAIClient.ask\<close> adds \<open>session_id\<close> to the body when its field is not
  \<^verbatim>\<open>null\<close>, and stores the \<open>session_id\<close> of every response.
\<close>

definition FarmbazisAIClient_ask_request :: "string option \<Rightarrow> string \<Rightarrow> request" where
  "FarmbazisAIClient_ask_request sid question = ChatReq question sid"

text \<open>
  \<^verbatim>\<open>SupportDialog.handleAsk\<close>: the request sent for the text of the question area (none
  for an empty question).
\<close>

definition SupportDialog_handleAsk :: "string option \<Rightarrow> string \<Rightarrow> request list" where
  "SupportDialog_handleAsk sid questionArea =
     (let question = java_trim questionArea in
      if question = [] then [] else [FarmbazisAIClient_ask_request sid question])"

text \<open>
  The listener \<^verbatim>\<open>handleResponse\<close> puts on the radio button of a topic:
  \<^verbatim>\<open>questionArea.setText(String.valueOf(topic.number)); handleAsk()\<close>, where
  \<^verbatim>\<open>parseBotResponse\<close> has set \<^verbatim>\<open>topic.number = i + 1\<close> for the topic at index \<open>i\<close>.
\<close>

definition SupportDialog_topicSelected :: "string option \<Rightarrow> nat \<Rightarrow> request list" where
  "SupportDialog_topicSelected sid i = SupportDialog_handleAsk sid (String_of (i + 1))"

section \<open>OperatorPanel (src/unnamed/part_000)\<close>

definition LOGIN_ERROR :: string where
  "LOGIN_ERROR = ''Nevernyj login ili parol''"

definition REPLY_ERROR :: string where
  "REPLY_ERROR = ''Oshibka otpravki otveta''"

record OperatorPanel =
  token :: "string option"
  username :: string
  password :: string
  loginError :: string
  escalations :: "EscalationDetail list"
  pendingCount :: int
  selectedId :: "string option"
  replyText :: string
  closeTicket :: bool
  filter_op :: string
  loading_op :: bool

text \<open>
  The component together with what it touches in the browser: the \<open>op_token\<close> entry of
  \<^verbatim>\<open>localStorage\<close>; the interval timers that have been registered with
  \<^verbatim>\<open>setInterval\<close> and not cleared (their periods in milliseconds, the most recent one
  last); whether the document is hidden (\<^verbatim>\<open>document.hidden\<close>: the tab is in the
  background or the window is minimised); whether the component is mounted; and the
  alerts shown.
\<close>

record operator_world = OperatorPanel +
  op_token :: "string option"
  timers :: "nat list"
  hidden :: bool
  mounted :: bool
  alerts :: "string list"

definition OperatorPanel_loadEscalations ::
    "EscalationList fetch_result \<Rightarrow> operator_world \<Rightarrow> operator_world \<times> request list" where
  "OperatorPanel_loadEscalations res w =
     (case token w of
        None \<Rightarrow> (w, [])
      | Some tok \<Rightarrow>
          if tok = [] then (w, [])
          else
            let w1 = w\<lparr>loading_op := True\<rparr>;
                req = ApiClient_getEscalations tok (or_undefined (Some (filter_op w)));
                w2 = (case api_result res of
                        Inr data \<Rightarrow>
                          w1\<lparr>escalations := escalations_l data, pendingCount := pending_count data\<rparr>
                      | Inl err \<Rightarrow> w1\<lparr>token := None, op_token := None\<rparr>)
            in (w2\<lparr>loading_op := False\<rparr>, [req]))"

text \<open>
  The polling effect: \<^verbatim>\<open>loadEscalations(); const interval = setInterval(loadEscalations, 15000)\<close>
  with the cleanup \<^verbatim>\<open>clearInterval(interval)\<close>. The cleanup of a run of the effect clears
  the timer which that run registered; React calls it before the next run and at
  unmount, so the timer cleared is the most recent one.
\<close>

definition OperatorPanel_effect ::
    "EscalationList fetch_result \<Rightarrow> operator_world \<Rightarrow> operator_world \<times> request list" where
  "OperatorPanel_effect res w =
     (let (w1, rs) = OperatorPanel_loadEscalations res w in (w1\<lparr>timers := timers w1 @ [15000]\<rparr>, rs))"

definition OperatorPanel_cleanup :: "operator_world \<Rightarrow> operator_world" where
  "OperatorPanel_cleanup w = w\<lparr>timers := butlast (timers w)\<rparr>"

text \<open>
  The effect depends on \<^verbatim>\<open>loadEscalations\<close>, which \<^verbatim>\<open>useCallback\<close> renews when \<open>token\<close>
  or \<open>filter\<close> changes.
\<close>

definition deps :: "operator_world \<Rightarrow> string option \<times> string" where
  "deps w = (token w, filter_op w)"

text \<open>
  After a handler, React cleans up and re-runs the effect when the dependencies differ
  from those of the previous render. The poll of that run can itself drop the token,
  which re-runs the effect once more; that second run finds no token.
\<close>

definition OperatorPanel_commit ::
    "string option \<times> string \<Rightarrow> EscalationList fetch_result \<Rightarrow> operator_world
      \<Rightarrow> operator_world \<times> request list" where
  "OperatorPanel_commit old res w =
     (if deps w = old then (w, [])
      else
        let (w1, rs1) = OperatorPanel_effect res (OperatorPanel_cleanup w) in
        if deps w1 = deps w then (w1, rs1)
        else
          let (w2, rs2) = OperatorPanel_effect res (OperatorPanel_cleanup w1) in (w2, rs1 @ rs2))"

definition OperatorPanel_handleLogin ::
    "LoginResponse fetch_result \<Rightarrow> operator_world \<Rightarrow> operator_world \<times> request list" where
  "OperatorPanel_handleLogin res w =
     (let req = ApiClient_operatorLogin (username w) (password w) in
      case api_result res of
        Inr r \<Rightarrow> (w\<lparr>token := Some (token_l r), loginError := [], op_token := Some (token_l r)\<rparr>, [req])
      | Inl err \<Rightarrow> (w\<lparr>loginError := LOGIN_ERROR\<rparr>, [req]))"

text \<open>
  \<^verbatim>\<open>handleReply\<close>; \<open>lres\<close> is the outcome of the \<^verbatim>\<open>loadEscalations()\<close> it starts
  after a successful reply.
\<close>

definition OperatorPanel_handleReply ::
    "unit fetch_result \<Rightarrow> EscalationList fetch_result \<Rightarrow> operator_world
      \<Rightarrow> operator_world \<times> request list" where
  "OperatorPanel_handleReply rres lres w =
     (case (token w, selectedId w) of
        (Some tok, Some sel) \<Rightarrow>
          if tok = [] \<or> sel = [] \<or> trim (replyText w) = [] then (w, [])
          else
            let req = ApiClient_operatorReply tok sel (replyText w) (closeTicket w)
            in (case api_result_void rres of
                  Inr u \<Rightarrow>
                    (let (w1, rs) = OperatorPanel_loadEscalations lres
                                      (w\<lparr>replyText := [], closeTicket := False\<rparr>)
                     in (w1, req # rs))
                | Inl err \<Rightarrow> (w\<lparr>alerts := alerts w @ [REPLY_ERROR]\<rparr>, [req]))
      | _ \<Rightarrow> (w, []))"

definition OperatorPanel_handleLogout :: "operator_world \<Rightarrow> operator_world" where
  "OperatorPanel_handleLogout w = w\<lparr>token := None, op_token := None\<rparr>"

text \<open>\<^verbatim>\<open>if (!token) return\<close> the login form, else the panel.\<close>

definition shows_login_form :: "operator_world \<Rightarrow> bool" where
  "shows_login_form w = (\<not> truthy (token w))"

definition selectedEscalation :: "operator_world \<Rightarrow> EscalationDetail option" where
  "selectedEscalation w = find (\<lambda>e. Some (escalation_id_d e) = selectedId w) (escalations w)"

definition shows_reply_area :: "operator_world \<Rightarrow> bool" where
  "shows_reply_area w =
     (\<not> shows_login_form w \<and>
      (case selectedEscalation w of
         None \<Rightarrow> False
       | Some e \<Rightarrow> status_d e = ''pending'' \<or> status_d e = ''in_progress''))"

text \<open>
  The events of the panel. \<open>Mount\<close> is the first render with its effect, \<open>Unmount\<close> the
  removal of the component (the route no longer shows the panel), \<open>Tick\<close> one firing
  of a registered interval timer. \<open>Visibility h\<close> is the browser's \<^verbatim>\<open>visibilitychange\<close>:
  the tab goes to the background (\<open>h\<close> true) or comes back; the component registers no
  listener for it and never reads \<^verbatim>\<open>document.hidden\<close>, so only the browser's own flag
  changes. Every event comes with the outcome of the poll that the effect issues if
  the event makes it run again.
\<close>

datatype op_event =
    Mount
  | Unmount
  | Tick
  | Visibility bool
  | SetUsername string
  | SetPassword string
  | SubmitLogin "LoginResponse fetch_result"
  | ClickLogout
  | SetFilter string
  | SelectTicket string
  | SetReplyText string
  | SetCloseTicket bool
  | ClickReply "unit fetch_result"

fun OperatorPanel_offered :: "operator_world \<Rightarrow> op_event \<Rightarrow> bool" where
  "OperatorPanel_offered w Mount = (\<not> mounted w)"
| "OperatorPanel_offered w Unmount = mounted w"
| "OperatorPanel_offered w Tick = (timers w \<noteq> [])"
| "OperatorPanel_offered w (Visibility h) = True"
| "OperatorPanel_offered w (SetUsername v) = (mounted w \<and> shows_login_form w)"
| "OperatorPanel_offered w (SetPassword v) = (mounted w \<and> shows_login_form w)"
| "OperatorPanel_offered w (SubmitLogin res) = (mounted w \<and> shows_login_form w)"
| "OperatorPanel_offered w ClickLogout = (mounted w \<and> \<not> shows_login_form w)"
| "OperatorPanel_offered w (SetFilter v) = (mounted w \<and> \<not> shows_login_form w)"
| "OperatorPanel_offered w (SelectTicket v) =
     (mounted w \<and> \<not> shows_login_form w \<and> v \<in> set (map escalation_id_d (escalations w)))"
| "OperatorPanel_offered w (SetReplyText v) = (mounted w \<and> shows_reply_area w)"
| "OperatorPanel_offered w (SetCloseTicket v) = (mounted w \<and> shows_reply_area w)"
| "OperatorPanel_offered w (ClickReply res) =
     (mounted w \<and> shows_reply_area w \<and> trim (replyText w) \<noteq> [])"

text \<open>
  The first render reads the token from \<^verbatim>\<open>localStorage.getItem('op_token')\<close>; the other
  cells start from their initial values.
\<close>

definition OperatorPanel_mount :: "operator_world \<Rightarrow> operator_world" where
  "OperatorPanel_mount w = w\<lparr> token := op_token w, username := [], password := [],
     loginError := [], escalations := [], pendingCount := 0, selectedId := None,
     replyText := [], closeTicket := False, filter_op := [], loading_op := False,
     mounted := True \<rparr>"

fun OperatorPanel_handle ::
    "op_event \<Rightarrow> EscalationList fetch_result \<Rightarrow> operator_world \<Rightarrow> operator_world \<times> request list" where
  "OperatorPanel_handle Mount res w = OperatorPanel_effect res (OperatorPanel_mount w)"
| "OperatorPanel_handle Unmount res w = ((OperatorPanel_cleanup w)\<lparr>mounted := False\<rparr>, [])"
| "OperatorPanel_handle Tick res w = OperatorPanel_loadEscalations res w"
| "OperatorPanel_handle (Visibility h) res w = (w\<lparr>hidden := h\<rparr>, [])"
| "OperatorPanel_handle (SetUsername v) res w = (w\<lparr>username := v\<rparr>, [])"
| "OperatorPanel_handle (SetPassword v) res w = (w\<lparr>password := v\<rparr>, [])"
| "OperatorPanel_handle (SubmitLogin lres) res w = OperatorPanel_handleLogin lres w"
| "OperatorPanel_handle ClickLogout res w = (OperatorPanel_handleLogout w, [])"
| "OperatorPanel_handle (SetFilter v) res w = (w\<lparr>filter_op := v\<rparr>, [])"
| "OperatorPanel_handle (SelectTicket v) res w = (w\<lparr>selectedId := Some v\<rparr>, [])"
| "OperatorPanel_handle (SetReplyText v) res w = (w\<lparr>replyText := v\<rparr>, [])"
| "OperatorPanel_handle (SetCloseTicket v) res w = (w\<lparr>closeTicket := v\<rparr>, [])"
| "OperatorPanel_handle (ClickReply rres) res w = OperatorPanel_handleReply rres res w"

text \<open>
  One event: the handler, then the effect if the dependencies have changed. For
  \<open>Mount\<close> the dependencies of the previous render are those the first render had; an
  unmounted component renders nothing, so nothing is committed after \<open>Unmount\<close>.
\<close>

definition OperatorPanel_step ::
    "op_event \<times> EscalationList fetch_result \<Rightarrow> operator_world \<Rightarrow> operator_world \<times> request list" where
  "OperatorPanel_step e w =
     (case e of (ev, res) \<Rightarrow>
        if \<not> OperatorPanel_offered w ev then (w, [])
        else
          let old = (if ev = Mount then deps (OperatorPanel_mount w) else deps w);
              (w1, rs1) = OperatorPanel_handle ev res w
          in if ev = Unmount then (w1, rs1)
             else (let (w2, rs2) = OperatorPanel_commit old res w1 in (w2, rs1 @ rs2)))"

fun OperatorPanel_run ::
    "(op_event \<times> EscalationList fetch_result) list \<Rightarrow> operator_world
      \<Rightarrow> operator_world \<times> request list" where
  "OperatorPanel_run [] w = (w, [])"
| "OperatorPanel_run (e # es) w =
     (let (w1, rs1) = OperatorPanel_step e w; (w2, rs2) = OperatorPanel_run es w1
      in (w2, rs1 @ rs2))"

text \<open>
  Modelled from the spec: an authentication failure on poll (expired or invalid token).
  The backend that answers the poll is not among the sources; the failure is read as
  the statuses \<open>401\<close> and \<open>403\<close> in answer to the bearer token.
\<close>

fun auth_failure :: "'a fetch_result \<Rightarrow> bool" where
  "auth_failure NetworkError = False"
| "auth_failure (HttpResponse st body) = (st = 401 \<or> st = 403)"

fun is_login :: "op_event \<times> 'a \<Rightarrow> bool" where
  "is_login (SubmitLogin lres, res) = True"
| "is_login (ev, res) = False"

section \<open>The answering engine's sessions\<close>

text \<open>
  Modelled from the spec: the engine side of \<open>sendTurn\<close>, which is served by the backend
  and is not among the sources (only its callers in the API client are). Sections 3 and
  4.1: a session is a token with an ordered, append-only transcript of turns
  \<open>{role, content, timestamp}\<close>; it is created implicitly on the first message when no
  token is supplied, the engine allocating the token and returning it; every call
  appends one user turn and, on success, one assistant turn; on failure no turn is
  appended.
\<close>

record turn =
  turn_role :: role
  turn_content :: string
  turn_timestamp :: nat

type_synonym store = "(string \<times> turn list) list"

text \<open>
  Modelled from the spec: the transcript the engine keeps for a token, empty for a token
  it does not know.
\<close>

definition transcript_of :: "store \<Rightarrow> string \<Rightarrow> turn list" where
  "transcript_of s k = (case map_of s k of None \<Rightarrow> [] | Some t \<Rightarrow> t)"

text \<open>
  Modelled from the spec: the engine's token allocator. Section 3 only says that the
  token is opaque and unique; this allocator returns a string longer than every token
  in use.
\<close>

definition engine_alloc :: "string list \<Rightarrow> string" where
  "engine_alloc ks = replicate (Suc (foldr (\<lambda>k n. max (length k) n) ks 0)) CHR ''s''"

text \<open>
  Modelled from the spec: one \<open>sendTurn\<close> on the engine. \<open>reply\<close> is the answering
  function (\<open>None\<close> for an engine error) and \<open>now\<close> the time of the call, both opaque.
\<close>

definition engine_sendTurn ::
    "(turn list \<Rightarrow> string \<Rightarrow> string option) \<Rightarrow> nat \<Rightarrow>
     string option \<Rightarrow> string \<Rightarrow> store \<Rightarrow> store \<times> (string \<times> string) option" where
  "engine_sendTurn reply now sid question s =
     (let k = (case sid of None \<Rightarrow> engine_alloc (map fst s) | Some t \<Rightarrow> t);
          old = (case sid of None \<Rightarrow> [] | Some t \<Rightarrow> transcript_of s t)
      in case reply old question of
           None \<Rightarrow> (s, None)
         | Some a \<Rightarrow>
             (AList.update k
                (old @ [\<lparr>turn_role = User, turn_content = question, turn_timestamp = now\<rparr>,
                        \<lparr>turn_role = Assistant, turn_content = a, turn_timestamp = now\<rparr>]) s,
              Some (k, a)))"

text \<open>
  Modelled from the spec: a history of calls \<open>(session token, text, time)\<close> served one
  after the other, with what each call returned.
\<close>

fun engine_run ::
    "(turn list \<Rightarrow> string \<Rightarrow> string option) \<Rightarrow> (string option \<times> string \<times> nat) list \<Rightarrow> store
      \<Rightarrow> store \<times> (string \<times> string) option list" where
  "engine_run reply [] s = (s, [])"
| "engine_run reply ((sid, question, now) # cs) s =
     (let (s1, out) = engine_sendTurn reply now sid question s;
          (s2, outs) = engine_run reply cs s1
      in (s2, out # outs))"

text \<open>The tokens a history of calls has returned.\<close>

definition returned_tokens :: "(string \<times> string) option list \<Rightarrow> string list" where
  "returned_tokens outs = concat (map (\<lambda>out. case out of None \<Rightarrow> [] | Some (k, a) \<Rightarrow> [k]) outs)"

section \<open>Observations on states, requests and renders\<close>

text \<open>A chat request that carries the session field \<open>sid\<close>; other requests pass.\<close>

fun chat_with :: "string option \<Rightarrow> request \<Rightarrow> bool" where
  "chat_with sid (ChatReq msg s) = (s = sid)"
| "chat_with sid r = True"

fun is_escalation_req :: "request \<Rightarrow> bool" where
  "is_escalation_req (EscalationReq sid rsn c) = True"
| "is_escalation_req r = False"

fun is_topic_ui :: "element \<Rightarrow> bool" where
  "is_topic_ui (TopicButton j l s d) = True"
| "is_topic_ui OtherTopicButton = True"
| "is_topic_ui e = False"

fun is_escalation_ui :: "element \<Rightarrow> bool" where
  "is_escalation_ui EscalationButton = True"
| "is_escalation_ui (EscalationPanel c r) = True"
| "is_escalation_ui e = False"

definition count_role :: "role \<Rightarrow> Message list \<Rightarrow> nat" where
  "count_role r ms = length (filter (\<lambda>m. role m = r) ms)"

text \<open>
  Whether an error text advises turning to the operator: it contains the word
  (\<open>operator\<close> in any of its case endings).
\<close>

definition suggests_operator :: "string \<Rightarrow> bool" where
  "suggests_operator s = sublist ''operator'' s"

section \<open>Sample inputs\<close>

definition ok :: "'a \<Rightarrow> 'a fetch_result" where
  "ok v = HttpResponse 200 (Some v)"

definition sample_topics :: "SuggestedTopic list" where
  "sample_topics =
     [\<lparr>title = ''Pechat' chekov'', article_id = ''a1'', snippet = ''Nastrojka printera''\<rparr>,
      \<lparr>title = ''Pechat' cennikov'', article_id = ''a2'', snippet = ''Shablony cennikov''\<rparr>]"

definition sample_response ::
    "response_type \<Rightarrow> bool \<Rightarrow> string \<Rightarrow> SuggestedTopic list option \<Rightarrow> ChatResponse" where
  "sample_response rt esc sid topics = \<lparr> answer = ''Utochnite vopros'', session_id = sid,
     confidence = 0, needs_escalation = esc, source_articles = [], youtube_links = [],
     has_images = False, response_type = rt, suggested_topics = topics \<rparr>"

definition sample_escalation :: EscalationResponse where
  "sample_escalation = \<lparr> escalation_id = ''e1'', status = ''pending'',
     message = ''Zajavka sozdana'', position_in_queue = 1 \<rparr>"

definition sample_page :: ChatPage where
  "sample_page = ChatPage_init\<lparr>input := ''ne rabotaet printer''\<rparr>"

definition sample_widget :: ChatWidget where
  "sample_widget = ChatWidget_init\<lparr>input := ''ne rabotaet printer'', isOpen := True\<rparr>"

definition sample_ticket :: EscalationDetail where
  "sample_ticket = \<lparr> escalation_id_d = ''e1'', session_id_d = ''s1'', status_d = ''pending'',
     reason = None, contact_info = None, chat_history = [], created_at = ''2024-01-01'',
     updated_at = None, operator_notes = None \<rparr>"

definition sample_list :: EscalationList where
  "sample_list = \<lparr> escalations_l = [sample_ticket], total = 1, pending_count = 1 \<rparr>"

definition sample_world :: operator_world where
  "sample_world = \<lparr> token = None, username = [], password = [], loginError = [],
     escalations = [], pendingCount = 0, selectedId = None, replyText = [],
     closeTicket = False, filter_op = [], loading_op = False, op_token = Some ''tok1'',
     timers = [], hidden = False, mounted = False, alerts = [] \<rparr>"

definition sample_store :: store where
  "sample_store = [(''s1'', [\<lparr>turn_role = User, turn_content = ''privet'', turn_timestamp = 1\<rparr>,
                            \<lparr>turn_role = Assistant, turn_content = ''zdravstvujte'', turn_timestamp = 1\<rparr>])]"

definition sample_login :: LoginResponse where
  "sample_login = \<lparr> token_l = ''tok2'', username_l = ''op'' \<rparr>"

text \<open>The panel as an operator with a stored token sees it, one pending ticket selected.\<close>

definition sample_world_mounted :: operator_world where
  "sample_world_mounted = \<lparr> token = Some ''tok1'', username = [], password = [], loginError = [],
     escalations = [sample_ticket], pendingCount = 1, selectedId = Some ''e1'',
     replyText = ''gotovo'', closeTicket = False, filter_op = [], loading_op = False,
     op_token = Some ''tok1'', timers = [15000], hidden = False, mounted = True, alerts = [] \<rparr>"

text \<open>The panel showing the login form.\<close>

definition sample_world_login :: operator_world where
  "sample_world_login = \<lparr> token = None, username = ''op'', password = ''pw'', loginError = [],
     escalations = [], pendingCount = 0, selectedId = None, replyText = [],
     closeTicket = False, filter_op = [], loading_op = False, op_token = None,
     timers = [15000], hidden = False, mounted = True, alerts = [] \<rparr>"

section \<open>Invariants of the operator panel\<close>

text \<open>
  Exactly one interval timer is registered while the panel is mounted, with a period of
  15 s, and none while it is not.
\<close>

definition timer_ok :: "operator_world \<Rightarrow> bool" where
  "timer_ok w = (timers w = (if mounted w then [15000] else []))"

text \<open>No credential is held, neither in the state nor in \<^verbatim>\<open>localStorage\<close>.\<close>

definition logged_out :: "operator_world \<Rightarrow> bool" where
  "logged_out w = (\<not> truthy (token w) \<and> \<not> truthy (op_token w))"

fun is_mount :: "op_event \<times> 'a \<Rightarrow> bool" where
  "is_mount (Mount, res) = True"
| "is_mount (ev, res) = False"

definition unmounted :: "operator_world \<Rightarrow> bool" where
  "unmounted w = (\<not> mounted w \<and> timers w = [])"

section \<open>Facts about the primitives\<close>

lemma truthy_simps [simp]:
  "truthy None = False"
  "truthy (Some s) = (s \<noteq> [])"
  by (simp_all add: truthy_def)

lemma or_undefined_simps [simp]:
  "or_undefined None = None"
  "or_undefined (Some []) = None"
  "s \<noteq> [] \<Longrightarrow> or_undefined (Some s) = Some s"
  by (simp_all add: or_undefined_def)

lemma or_undefined_idem [simp]: "or_undefined (or_undefined s) = or_undefined s"
  by (simp add: or_undefined_def)

lemma truthy_or_undefined [simp]: "truthy (or_undefined s) = truthy s"
  by (simp add: or_undefined_def)

lemma or_undefined_truthy: "truthy s \<Longrightarrow> or_undefined s = s"
  by (simp add: or_undefined_def)

lemma api_result_ok [simp]: "api_result (ok v) = Inr v"
  by (simp add: ok_def res_ok_def)

lemma api_result_void_ok [simp]: "api_result_void (ok v) = Inr ()"
  by (simp add: ok_def res_ok_def)

lemma dropWhile_hd: "xs \<noteq> [] \<Longrightarrow> \<not> P (hd xs) \<Longrightarrow> dropWhile P xs = xs"
  by (cases xs) simp_all

lemma strip_both_ends:
  assumes "xs \<noteq> []" "\<not> P (hd xs)" "\<not> P (last xs)"
  shows "rev (dropWhile P (rev (dropWhile P xs))) = xs"
proof -
  have "dropWhile P xs = xs"
    using assms by (simp add: dropWhile_hd)
  moreover have "dropWhile P (rev xs) = rev xs"
    using assms by (intro dropWhile_hd) (simp_all add: hd_rev)
  ultimately show ?thesis by simp
qed

lemma of_char_digit_char: "d < 10 \<Longrightarrow> of_char (digit_char d) = 48 + d"
  by (simp add: digit_char_def)

lemma digit_not_whitespace: "d < 10 \<Longrightarrow> \<not> js_whitespace (digit_char d)"
  by (simp add: js_whitespace_def of_char_digit_char)

lemma digit_above_space: "d < 10 \<Longrightarrow> \<not> of_char (digit_char d) \<le> (32::nat)"
  by (simp add: of_char_digit_char)

lemma String_of_nonempty [simp]: "String_of n \<noteq> []"
  by (subst String_of.simps) simp

lemma String_of_last: "last (String_of n) = digit_char (n mod 10)"
  by (subst String_of.simps) simp

lemma String_of_hd: "\<exists>d<10. hd (String_of n) = digit_char d"
proof (induction n rule: String_of.induct)
  case (1 n)
  show ?case
  proof (cases "n < 10")
    case True
    then show ?thesis by (subst String_of.simps) auto
  next
    case False
    with "1" obtain d where "d < 10" "hd (String_of (n div 10)) = digit_char d"
      by auto
    with False show ?thesis
      by (subst String_of.simps) (auto simp: hd_append)
  qed
qed

lemma trim_String_of [simp]: "trim (String_of n) = String_of n"
proof -
  obtain d where d: "d < 10" "hd (String_of n) = digit_char d"
    using String_of_hd by blast
  show ?thesis
    unfolding trim_def
    by (rule strip_both_ends)
       (simp_all add: d digit_not_whitespace String_of_last)
qed

lemma java_trim_String_of [simp]: "java_trim (String_of n) = String_of n"
proof -
  obtain d where d: "d < 10" "hd (String_of n) = digit_char d"
    using String_of_hd by blast
  show ?thesis
    unfolding java_trim_def
    by (rule strip_both_ends)
       (simp_all add: d digit_above_space String_of_last)
qed

lemma String_of_1: "String_of 1 = ''1''"
  by code_simp

lemma String_of_2: "String_of 2 = ''2''"
  by code_simp

section \<open>The handlers of the chat components, case by case\<close>

lemma ChatPage_onResponse_fields [simp]:
  "messages (ChatPage_onResponse held r st) = messages st @ [ChatPage_botMessage r]"
  "sessionId (ChatPage_onResponse held r st) = (if truthy held then sessionId st else Some (session_id r))"
  "showEscalation (ChatPage_onResponse held r st) =
     (showEscalation st \<or> (needs_escalation r \<and> response_type r \<noteq> Clarification))"
  "escalationSent (ChatPage_onResponse held r st) = escalationSent st"
  "input (ChatPage_onResponse held r st) = input st"
  "contactInfo (ChatPage_onResponse held r st) = contactInfo st"
  "escalationReason (ChatPage_onResponse held r st) = escalationReason st"
  by (auto simp: ChatPage_onResponse_def Let_def)

lemma ChatPage_sendMessage_skip:
  "trim (input st) = [] \<or> loading st \<Longrightarrow> ChatPage_sendMessage res st = (st, [])"
  by (auto simp: ChatPage_sendMessage_def Let_def)

lemma ChatPage_sendMessage_ok:
  assumes "trim (input st) \<noteq> []" "\<not> loading st" "api_result res = Inr r"
  shows "ChatPage_sendMessage res st =
     ((ChatPage_onResponse (sessionId st) r
         (st\<lparr>messages := messages st @ [plain User (trim (input st))], input := [], loading := True\<rparr>))
       \<lparr>loading := False\<rparr>,
      [ChatReq (trim (input st)) (or_undefined (sessionId st))])"
  using assms by (simp add: ChatPage_sendMessage_def Let_def ApiClient_sendMessage_def)

lemma ChatPage_sendMessage_fail:
  assumes "trim (input st) \<noteq> []" "\<not> loading st" "api_result res = Inl e"
  shows "ChatPage_sendMessage res st =
     (st\<lparr>messages := messages st @ [plain User (trim (input st)), plain Assistant PAGE_SEND_ERROR],
         input := [], loading := False\<rparr>,
      [ChatReq (trim (input st)) (or_undefined (sessionId st))])"
  using assms by (simp add: ChatPage_sendMessage_def Let_def ApiClient_sendMessage_def)

lemma ChatPage_handleTopicSelect_ok:
  assumes "\<not> loading st" "api_result res = Inr r"
  shows "ChatPage_handleTopicSelect j res st =
     ((ChatPage_onResponse (sessionId st) r
         (st\<lparr>messages := messages st @ [plain User (String_of (j + 1))], loading := True\<rparr>))
       \<lparr>loading := False\<rparr>,
      [ChatReq (String_of (j + 1)) (or_undefined (sessionId st))])"
  using assms by (simp add: ChatPage_handleTopicSelect_def Let_def ApiClient_sendMessage_def)

lemma ChatPage_handleTopicSelect_fail:
  assumes "\<not> loading st" "api_result res = Inl e"
  shows "ChatPage_handleTopicSelect j res st =
     (st\<lparr>messages := messages st @ [plain User (String_of (j + 1)), plain Assistant PAGE_TOPIC_ERROR],
         loading := False\<rparr>,
      [ChatReq (String_of (j + 1)) (or_undefined (sessionId st))])"
  using assms by (simp add: ChatPage_handleTopicSelect_def Let_def ApiClient_sendMessage_def)

lemma ChatWidget_sendMessage_ok:
  assumes "trim (input st) \<noteq> []" "\<not> loading st" "api_result res = Inr r"
  shows "ChatWidget_sendMessage res st =
     (st\<lparr>messages := messages st @ [plain User (trim (input st)), ChatWidget_botMsg r]
                      @ (if needs_escalation r \<and> session_id r \<noteq> []
                         then [plain Assistant WIDGET_HINT] else []),
         input := [], loading := False,
         sessionId := (if truthy (sessionId st) then sessionId st else Some (session_id r)),
         unread := (if isOpen st then unread st else unread st + 1)\<rparr>,
      [ChatReq (trim (input st)) (or_undefined (sessionId st))])"
  using assms by (simp add: ChatWidget_sendMessage_def Let_def ApiClient_sendMessage_def)

lemma ChatWidget_sendMessage_fail:
  assumes "trim (input st) \<noteq> []" "\<not> loading st" "api_result res = Inl e"
  shows "ChatWidget_sendMessage res st =
     (st\<lparr>messages := messages st @ [plain User (trim (input st)), plain Assistant WIDGET_ERROR],
         input := [], loading := False\<rparr>,
      [ChatReq (trim (input st)) (or_undefined (sessionId st))])"
  using assms by (simp add: ChatWidget_sendMessage_def Let_def ApiClient_sendMessage_def)

lemma ChatWidget2_sendMessage_ok:
  assumes "trim (input st) \<noteq> []" "\<not> loading st" "api_result res = Inr r"
  shows "ChatWidget2_sendMessage res st =
     (st\<lparr>messages := messages st @ [plain User (trim (input st)), ChatWidget2_botMsg r]
                      @ (if needs_escalation r \<and> session_id r \<noteq> [] \<and> response_type r \<noteq> Clarification
                         then [plain Assistant WIDGET_HINT2] else []),
         input := [], loading := False,
         sessionId := (if truthy (sessionId st) then sessionId st else Some (session_id r)),
         unread := (if isOpen st then unread st else unread st + 1)\<rparr>,
      [ChatReq (trim (input st)) (or_undefined (sessionId st))])"
  using assms by (simp add: ChatWidget2_sendMessage_def Let_def ApiClient_sendMessage_def)

lemma ChatWidget2_sendMessage_fail:
  assumes "trim (input st) \<noteq> []" "\<not> loading st" "api_result res = Inl e"
  shows "ChatWidget2_sendMessage res st =
     (st\<lparr>messages := messages st @ [plain User (trim (input st)), plain Assistant WIDGET_ERROR],
         input := [], loading := False\<rparr>,
      [ChatReq (trim (input st)) (or_undefined (sessionId st))])"
  using assms by (simp add: ChatWidget2_sendMessage_def Let_def ApiClient_sendMessage_def)

lemma ChatWidget2_handleTopicSelect_ok:
  assumes "\<not> loading st" "api_result res = Inr r"
  shows "ChatWidget2_handleTopicSelect j res st =
     (st\<lparr>messages := messages st @ [plain User (String_of (j + 1)), ChatWidget2_botMsg r],
         loading := False,
         sessionId := (if truthy (sessionId st) then sessionId st else Some (session_id r))\<rparr>,
      [ChatReq (String_of (j + 1)) (or_undefined (sessionId st))])"
  using assms by (simp add: ChatWidget2_handleTopicSelect_def Let_def ApiClient_sendMessage_def)

lemma ChatWidget2_handleTopicSelect_fail:
  assumes "\<not> loading st" "api_result res = Inl e"
  shows "ChatWidget2_handleTopicSelect j res st =
     (st\<lparr>messages := messages st @ [plain User (String_of (j + 1)), plain Assistant WIDGET_ERROR],
         loading := False\<rparr>,
      [ChatReq (String_of (j + 1)) (or_undefined (sessionId st))])"
  using assms by (simp add: ChatWidget2_handleTopicSelect_def Let_def ApiClient_sendMessage_def)

lemma suggests_operator_texts:
  "suggests_operator PAGE_SEND_ERROR"
  "\<not> suggests_operator PAGE_TOPIC_ERROR"
  "\<not> suggests_operator WIDGET_ERROR"
  by code_simp+

lemma trim_sample_input [simp]: "trim ''ne rabotaet printer'' = ''ne rabotaet printer''"
  by code_simp

lemma sample_page_fields [simp]:
  "input sample_page = ''ne rabotaet printer''" "\<not> loading sample_page"
  "sessionId sample_page = None" "messages sample_page = [plain Assistant PAGE_GREETING]"
  "\<not> showEscalation sample_page" "\<not> escalationSent sample_page"
  by (simp_all add: sample_page_def ChatPage_init_def)

lemma sample_widget_fields [simp]:
  "input sample_widget = ''ne rabotaet printer''" "\<not> loading sample_widget"
  "sessionId sample_widget = None" "messages sample_widget = [plain Assistant WIDGET_GREETING]"
  "isOpen sample_widget" "unread sample_widget = 0"
  by (simp_all add: sample_widget_def ChatWidget_init_def)

lemma sample_response_fields [simp]:
  "answer (sample_response rt esc sid topics) = ''Utochnite vopros''"
  "session_id (sample_response rt esc sid topics) = sid"
  "needs_escalation (sample_response rt esc sid topics) = esc"
  "response_type (sample_response rt esc sid topics) = rt"
  "suggested_topics (sample_response rt esc sid topics) = topics"
  "youtube_links (sample_response rt esc sid topics) = []"
  by (simp_all add: sample_response_def)

lemma role_plain [simp]: "role (plain r c) = r" "content (plain r c) = c"
  "needsEscalation (plain r c) = None" "responseType (plain r c) = None"
  "suggestedTopics (plain r c) = None" "youtubeLinks (plain r c) = None"
  by (simp_all add: plain_def)

lemma botMessage_fields [simp]:
  "role (ChatPage_botMessage r) = Assistant"
  "content (ChatPage_botMessage r) = answer r"
  "youtubeLinks (ChatPage_botMessage r) = Some (youtube_links r)"
  "suggestedTopics (ChatPage_botMessage r) = suggested_topics r"
  "responseType (ChatPage_botMessage r) = Some (response_type r)"
  "needsEscalation (ChatPage_botMessage r) = Some (needs_escalation r)"
  by (simp_all add: ChatPage_botMessage_def)

lemma botMsg_fields [simp]:
  "role (ChatWidget_botMsg r) = Assistant"
  "content (ChatWidget_botMsg r) = answer r"
  "youtubeLinks (ChatWidget_botMsg r) = Some (youtube_links r)"
  "needsEscalation (ChatWidget_botMsg r) = Some (needs_escalation r)"
  "responseType (ChatWidget_botMsg r) = None"
  "suggestedTopics (ChatWidget_botMsg r) = None"
  by (simp_all add: ChatWidget_botMsg_def plain_def)

lemma botMsg2_fields [simp]:
  "role (ChatWidget2_botMsg r) = Assistant"
  "content (ChatWidget2_botMsg r) = answer r"
  "youtubeLinks (ChatWidget2_botMsg r) = Some (youtube_links r)"
  "needsEscalation (ChatWidget2_botMsg r) = Some (needs_escalation r)"
  "responseType (ChatWidget2_botMsg r) = Some (response_type r)"
  "suggestedTopics (ChatWidget2_botMsg r) = suggested_topics r"
  by (simp_all add: ChatWidget2_botMsg_def plain_def)

lemma String_of_Suc [simp]:
  "String_of (Suc 0) = ''1''" "String_of (Suc (Suc 0)) = ''2''"
  using String_of_1 String_of_2 by (simp_all add: numeral_2_eq_2)

section \<open>Topic selection on the wire\<close>

text \<open>
  Claim C2. Selecting a suggested topic sends a \<open>sendTurn\<close> request whose message text
  is the decimal string of the topic's 1-based index (the first topic sends \<open>1\<close>),
  with the current session id and nothing else: it is the request that typing that
  digit and sending it produces. This holds for \<^verbatim>\<open>handleTopicSelect\<close> of ChatPage and of the
  clarification-aware ChatWidget, and for the radio buttons of the desktop
  \<^verbatim>\<open>SupportDialog\<close>.
\<close>

theorem topic_select_is_typed_digit:
  assumes "\<not> loading p" and "\<not> loading w"
  shows "snd (ChatPage_handleTopicSelect j res p)
           = [ChatReq (String_of (j + 1)) (or_undefined (sessionId p))]
       \<and> snd (ChatPage_handleTopicSelect j res p)
           = snd (ChatPage_sendMessage res (p\<lparr>input := String_of (j + 1)\<rparr>))
       \<and> snd (ChatWidget2_handleTopicSelect j res w)
           = [ChatReq (String_of (j + 1)) (or_undefined (sessionId w))]
       \<and> snd (ChatWidget2_handleTopicSelect j res w)
           = snd (ChatWidget2_sendMessage res (w\<lparr>input := String_of (j + 1)\<rparr>))
       \<and> SupportDialog_topicSelected sid j = [ChatReq (String_of (j + 1)) sid]
       \<and> SupportDialog_topicSelected sid j = SupportDialog_handleAsk sid (String_of (j + 1))
       \<and> String_of (0 + 1) = ''1''"
proof -
  have page: "snd (ChatPage_handleTopicSelect j res p)
                = [ChatReq (String_of (j + 1)) (or_undefined (sessionId p))]"
    using assms(1) by (simp add: ChatPage_handleTopicSelect_def Let_def ApiClient_sendMessage_def)
  have typed: "snd (ChatPage_sendMessage res (p\<lparr>input := String_of (j + 1)\<rparr>))
                = [ChatReq (String_of (j + 1)) (or_undefined (sessionId p))]"
    using assms(1) by (simp add: ChatPage_sendMessage_def Let_def ApiClient_sendMessage_def)
  have widget: "snd (ChatWidget2_handleTopicSelect j res w)
                = [ChatReq (String_of (j + 1)) (or_undefined (sessionId w))]"
    using assms(2) by (simp add: ChatWidget2_handleTopicSelect_def Let_def ApiClient_sendMessage_def)
  have wtyped: "snd (ChatWidget2_sendMessage res (w\<lparr>input := String_of (j + 1)\<rparr>))
                = [ChatReq (String_of (j + 1)) (or_undefined (sessionId w))]"
    using assms(2) by (simp add: ChatWidget2_sendMessage_def Let_def ApiClient_sendMessage_def)
  have java: "SupportDialog_topicSelected sid j = [ChatReq (String_of (j + 1)) sid]"
    by (simp add: SupportDialog_topicSelected_def SupportDialog_handleAsk_def
          FarmbazisAIClient_ask_request_def)
  have one: "String_of (0 + 1) = ''1''"
    by simp
  show ?thesis
    using page typed widget wtyped java one
    by (simp add: SupportDialog_topicSelected_def)
qed

theorem topic_select_is_typed_digit_witness:
  "\<not> loading (sample_page\<lparr>sessionId := Some ''s1''\<rparr>)
   \<and> \<not> loading (sample_widget\<lparr>sessionId := Some ''s1''\<rparr>)
   \<and> snd (ChatPage_handleTopicSelect 1 NetworkError (sample_page\<lparr>sessionId := Some ''s1''\<rparr>))
       = [ChatReq ''2'' (Some ''s1'')]
   \<and> snd (ChatPage_handleTopicSelect 1 NetworkError (sample_page\<lparr>sessionId := Some ''s1''\<rparr>))
       = snd (ChatPage_sendMessage NetworkError (sample_page\<lparr>sessionId := Some ''s1'', input := ''2''\<rparr>))
   \<and> snd (ChatWidget2_handleTopicSelect 1 NetworkError (sample_widget\<lparr>sessionId := Some ''s1''\<rparr>))
       = [ChatReq ''2'' (Some ''s1'')]
   \<and> SupportDialog_topicSelected (Some ''s1'') 1 = [ChatReq ''2'' (Some ''s1'')]"
  using topic_select_is_typed_digit
          [of "sample_page\<lparr>sessionId := Some ''s1''\<rparr>" "sample_widget\<lparr>sessionId := Some ''s1''\<rparr>"
              1 NetworkError "Some ''s1''"]
  by auto

lemma count_role_append [simp]: "count_role r (xs @ ys) = count_role r xs + count_role r ys"
  by (simp add: count_role_def)

lemma count_role_Cons [simp]:
  "count_role r (m # ms) = (if role m = r then 1 else 0) + count_role r ms"
  by (simp add: count_role_def)

lemma count_role_Nil [simp]: "count_role r [] = 0"
  by (simp add: count_role_def)

section \<open>Turns appended by a successful sendTurn\<close>

text \<open>
  Claim C5, as stated: every successful \<open>sendTurn\<close> call appends exactly one user turn
  and exactly one assistant turn to the displayed transcript. It fails in ChatWidget:
  for an answer flagged \<open>needs_escalation\<close> that comes with a session id,
  \<^verbatim>\<open>sendMessage\<close> appends the answer and then a second assistant turn, the hint to
  contact the operator.
\<close>

theorem widget_success_appends_two_assistant_turns:
  "count_role Assistant
      (messages (fst (ChatWidget_sendMessage (ok (sample_response Answer True ''s1'' None)) sample_widget)))
     = count_role Assistant (messages sample_widget) + 2
   \<and> count_role Assistant
      (messages (fst (ChatWidget2_sendMessage (ok (sample_response Answer True ''s1'' None)) sample_widget)))
     = count_role Assistant (messages sample_widget) + 2"
  by (simp add: ChatWidget_sendMessage_ok [where r = "sample_response Answer True ''s1'' None"]
        ChatWidget2_sendMessage_ok [where r = "sample_response Answer True ''s1'' None"])

text \<open>
  Claim C5, amended. A call is successful when the \<^verbatim>\<open>fetch\<close> resolves with a status in
  200..299 and a body that parses to the response \<open>r\<close>. Every such call from ChatPage
  (\<^verbatim>\<open>sendMessage\<close> or \<^verbatim>\<open>handleTopicSelect\<close>) and from the widget's \<^verbatim>\<open>handleTopicSelect\<close>
  appends exactly the user turn and the assistant turn built from the response, and
  issues one request; a topic click does so whatever the input box holds.
  \<^verbatim>\<open>sendMessage\<close> of the widget appends the same two turns and, exactly when the response
  is an answer with \<open>needs_escalation\<close> set and a non-empty session id, one more assistant
  turn with the fixed hint; for a clarification it appends the two turns only. For the
  ChatWidget of src/frontend/src/widget/ChatWidget.tsx the statement leaves out the
  clarification flagged \<open>needs_escalation\<close>, where that file lacks the guard of its
  siblings (claim C1).
\<close>

theorem successful_send_appends:
  assumes "res = HttpResponse st (Some r)" and "200 \<le> st" and "st \<le> 299"
    and "\<not> loading p" and "\<not> loading w"
  shows "(trim (input p) \<noteq> [] \<longrightarrow>
            messages (fst (ChatPage_sendMessage res p))
              = messages p @ [plain User (trim (input p)), ChatPage_botMessage r]
            \<and> length (snd (ChatPage_sendMessage res p)) = 1)
       \<and> messages (fst (ChatPage_handleTopicSelect j res p))
           = messages p @ [plain User (String_of (j + 1)), ChatPage_botMessage r]
       \<and> length (snd (ChatPage_handleTopicSelect j res p)) = 1
       \<and> messages (fst (ChatWidget2_handleTopicSelect j res w))
           = messages w @ [plain User (String_of (j + 1)), ChatWidget2_botMsg r]
       \<and> length (snd (ChatWidget2_handleTopicSelect j res w)) = 1
       \<and> (trim (input w) \<noteq> [] \<and> (response_type r = Clarification \<longrightarrow> \<not> needs_escalation r) \<longrightarrow>
            messages (fst (ChatWidget_sendMessage res w))
              = messages w @ [plain User (trim (input w)), ChatWidget_botMsg r]
                  @ (if response_type r = Answer \<and> needs_escalation r \<and> session_id r \<noteq> []
                     then [plain Assistant WIDGET_HINT] else []))
       \<and> (trim (input w) \<noteq> [] \<longrightarrow> length (snd (ChatWidget_sendMessage res w)) = 1)
       \<and> (trim (input w) \<noteq> [] \<longrightarrow>
            messages (fst (ChatWidget2_sendMessage res w))
              = messages w @ [plain User (trim (input w)), ChatWidget2_botMsg r]
                  @ (if response_type r = Answer \<and> needs_escalation r \<and> session_id r \<noteq> []
                     then [plain Assistant WIDGET_HINT2] else [])
            \<and> length (snd (ChatWidget2_sendMessage res w)) = 1)"
proof -
  have r: "api_result res = Inr r"
    using assms(1,2,3) by (simp add: res_ok_def)
  have rt: "response_type r \<noteq> Clarification \<longleftrightarrow> response_type r = Answer"
    by (cases "response_type r") simp_all
  have page: "trim (input p) \<noteq> [] \<longrightarrow>
            messages (fst (ChatPage_sendMessage res p))
              = messages p @ [plain User (trim (input p)), ChatPage_botMessage r]
            \<and> length (snd (ChatPage_sendMessage res p)) = 1"
    using assms(4) r by (simp add: ChatPage_sendMessage_ok)
  have topic: "messages (fst (ChatPage_handleTopicSelect j res p))
           = messages p @ [plain User (String_of (j + 1)), ChatPage_botMessage r]"
    "length (snd (ChatPage_handleTopicSelect j res p)) = 1"
    using assms(4) r by (simp_all add: ChatPage_handleTopicSelect_ok)
  have wtopic: "messages (fst (ChatWidget2_handleTopicSelect j res w))
           = messages w @ [plain User (String_of (j + 1)), ChatWidget2_botMsg r]"
    "length (snd (ChatWidget2_handleTopicSelect j res w)) = 1"
    using assms(5) r by (simp_all add: ChatWidget2_handleTopicSelect_ok)
  have old: "trim (input w) \<noteq> [] \<and> (response_type r = Clarification \<longrightarrow> \<not> needs_escalation r) \<longrightarrow>
            messages (fst (ChatWidget_sendMessage res w))
              = messages w @ [plain User (trim (input w)), ChatWidget_botMsg r]
                  @ (if response_type r = Answer \<and> needs_escalation r \<and> session_id r \<noteq> []
                     then [plain Assistant WIDGET_HINT] else [])"
    using assms(5) r rt by (auto simp: ChatWidget_sendMessage_ok)
  have oldreq: "trim (input w) \<noteq> [] \<longrightarrow> length (snd (ChatWidget_sendMessage res w)) = 1"
    using assms(5) r by (simp add: ChatWidget_sendMessage_ok)
  have new: "trim (input w) \<noteq> [] \<longrightarrow>
            messages (fst (ChatWidget2_sendMessage res w))
              = messages w @ [plain User (trim (input w)), ChatWidget2_botMsg r]
                  @ (if response_type r = Answer \<and> needs_escalation r \<and> session_id r \<noteq> []
                     then [plain Assistant WIDGET_HINT2] else [])
            \<and> length (snd (ChatWidget2_sendMessage res w)) = 1"
    using assms(5) r rt by (auto simp: ChatWidget2_sendMessage_ok)
  show ?thesis
    using page topic wtopic old oldreq new by blast
qed

theorem successful_send_appends_witness:
  "ok (sample_response Answer False ''s1'' None) = HttpResponse 200 (Some (sample_response Answer False ''s1'' None))
   \<and> \<not> loading sample_page \<and> \<not> loading sample_widget \<and> trim (input sample_page) \<noteq> []
   \<and> trim (input sample_widget) \<noteq> []
   \<and> \<not> loading (sample_page\<lparr>input := []\<rparr>) \<and> \<not> loading (sample_widget\<lparr>input := []\<rparr>)
   \<and> messages (fst (ChatPage_sendMessage (ok (sample_response Answer False ''s1'' None)) sample_page))
       = [plain Assistant PAGE_GREETING, plain User ''ne rabotaet printer'',
          ChatPage_botMessage (sample_response Answer False ''s1'' None)]
   \<and> messages (fst (ChatWidget_sendMessage (ok (sample_response Answer False ''s1'' None)) sample_widget))
       = [plain Assistant WIDGET_GREETING, plain User ''ne rabotaet printer'',
          ChatWidget_botMsg (sample_response Answer False ''s1'' None)]
   \<and> messages (fst (ChatWidget2_sendMessage (ok (sample_response Answer False ''s1'' None)) sample_widget))
       = [plain Assistant WIDGET_GREETING, plain User ''ne rabotaet printer'',
          ChatWidget2_botMsg (sample_response Answer False ''s1'' None)]
   \<and> messages (fst (ChatPage_handleTopicSelect 0 (ok (sample_response Answer False ''s1'' None))
                       (sample_page\<lparr>input := []\<rparr>)))
       = [plain Assistant PAGE_GREETING, plain User ''1'',
          ChatPage_botMessage (sample_response Answer False ''s1'' None)]
   \<and> messages (fst (ChatWidget2_handleTopicSelect 0 (ok (sample_response Answer False ''s1'' None))
                       (sample_widget\<lparr>input := []\<rparr>)))
       = [plain Assistant WIDGET_GREETING, plain User ''1'',
          ChatWidget2_botMsg (sample_response Answer False ''s1'' None)]"
  using successful_send_appends
          [where res = "ok (sample_response Answer False ''s1'' None)" and st = 200
             and r = "sample_response Answer False ''s1'' None"
             and p = sample_page and w = sample_widget and j = 0]
        successful_send_appends
          [where res = "ok (sample_response Answer False ''s1'' None)" and st = 200
             and r = "sample_response Answer False ''s1'' None"
             and p = "sample_page\<lparr>input := []\<rparr>" and w = "sample_widget\<lparr>input := []\<rparr>" and j = 0]
  by (simp add: ok_def)

section \<open>A failed sendTurn\<close>

text \<open>
  A \<open>sendTurn\<close> call fails when the \<^verbatim>\<open>fetch\<close> is rejected, when the status lies outside
  200..299 or when the body does not parse. Every handler of the browser clients then
  appends, after the user turn, exactly one synthetic assistant turn with a fixed text
  to its own message list, changes nothing else but the input and loading cells, and
  issues no request besides the failed one; a topic click does so whatever the input
  box holds.
\<close>

lemma failed_send_structure:
  assumes "res = NetworkError \<or> (res = HttpResponse st body \<and> (st < 200 \<or> 299 < st \<or> body = None))"
    and "\<not> loading p" and "\<not> loading w"
  shows "(trim (input p) \<noteq> [] \<longrightarrow> ChatPage_sendMessage res p =
           (p\<lparr>messages := messages p @ [plain User (trim (input p)), plain Assistant PAGE_SEND_ERROR],
              input := [], loading := False\<rparr>,
            [ChatReq (trim (input p)) (or_undefined (sessionId p))]))
       \<and> ChatPage_handleTopicSelect j res p =
           (p\<lparr>messages := messages p @ [plain User (String_of (j + 1)), plain Assistant PAGE_TOPIC_ERROR],
              loading := False\<rparr>,
            [ChatReq (String_of (j + 1)) (or_undefined (sessionId p))])
       \<and> (trim (input w) \<noteq> [] \<longrightarrow> ChatWidget_sendMessage res w =
           (w\<lparr>messages := messages w @ [plain User (trim (input w)), plain Assistant WIDGET_ERROR],
              input := [], loading := False\<rparr>,
            [ChatReq (trim (input w)) (or_undefined (sessionId w))]))
       \<and> (trim (input w) \<noteq> [] \<longrightarrow> ChatWidget2_sendMessage res w =
           (w\<lparr>messages := messages w @ [plain User (trim (input w)), plain Assistant WIDGET_ERROR],
              input := [], loading := False\<rparr>,
            [ChatReq (trim (input w)) (or_undefined (sessionId w))]))
       \<and> ChatWidget2_handleTopicSelect j res w =
           (w\<lparr>messages := messages w @ [plain User (String_of (j + 1)), plain Assistant WIDGET_ERROR],
              loading := False\<rparr>,
            [ChatReq (String_of (j + 1)) (or_undefined (sessionId w))])"
proof -
  from assms(1) have "isl (api_result res)"
    by (auto simp: res_ok_def)
  then obtain e where "api_result res = Inl e"
    by (cases "api_result res") auto
  with assms(2,3) show ?thesis
    by (simp add: ChatPage_sendMessage_fail ChatPage_handleTopicSelect_fail
          ChatWidget_sendMessage_fail ChatWidget2_sendMessage_fail ChatWidget2_handleTopicSelect_fail)
qed

text \<open>
  Claim C9. When a \<open>sendTurn\<close> call fails, the client appends a synthetic assistant turn
  apologizing and suggesting escalation, to the local display only, and retries
  nothing. \<^verbatim>\<open>sendMessage\<close> of ChatPage does so: its \<^verbatim>\<open>catch\<close> appends the text that ends
  with the advice to turn to the operator. The \<^verbatim>\<open>catch\<close> of \<^verbatim>\<open>sendMessage\<close> in ChatWidget
  (both copies) and the \<^verbatim>\<open>catch\<close> of \<^verbatim>\<open>handleTopicSelect\<close> (ChatPage and ChatWidget) append
  a turn that reports the error and asks to try later, without a word about the
  operator: for the same failure of the same call the user of the widget, and the user
  who clicked a topic, are not pointed to escalation. The local turn and the single
  request are as the claim says in every handler.
\<close>

theorem ChatWidget_error_turn_omits_operator:
  "ChatWidget_sendMessage NetworkError sample_widget =
     (sample_widget\<lparr>messages := [plain Assistant WIDGET_GREETING, plain User ''ne rabotaet printer'',
                                  plain Assistant WIDGET_ERROR],
        input := [], loading := False\<rparr>,
      [ChatReq ''ne rabotaet printer'' None])
   \<and> ChatWidget2_sendMessage NetworkError sample_widget =
     (sample_widget\<lparr>messages := [plain Assistant WIDGET_GREETING, plain User ''ne rabotaet printer'',
                                  plain Assistant WIDGET_ERROR],
        input := [], loading := False\<rparr>,
      [ChatReq ''ne rabotaet printer'' None])
   \<and> ChatWidget_sendMessage (HttpResponse 500 None) sample_widget
       = ChatWidget_sendMessage NetworkError sample_widget
   \<and> \<not> suggests_operator WIDGET_ERROR
   \<and> content (last (messages (fst (ChatPage_handleTopicSelect 0 NetworkError sample_page))))
       = PAGE_TOPIC_ERROR
   \<and> content (last (messages (fst (ChatWidget2_handleTopicSelect 0 NetworkError sample_widget))))
       = WIDGET_ERROR
   \<and> \<not> suggests_operator PAGE_TOPIC_ERROR
   \<and> ChatPage_sendMessage NetworkError sample_page =
     (sample_page\<lparr>messages := [plain Assistant PAGE_GREETING, plain User ''ne rabotaet printer'',
                                plain Assistant PAGE_SEND_ERROR],
        input := [], loading := False\<rparr>,
      [ChatReq ''ne rabotaet printer'' None])
   \<and> suggests_operator PAGE_SEND_ERROR"
proof -
  have net: "api_result (NetworkError :: ChatResponse fetch_result) = Inl FetchFailed"
    and srv: "api_result (HttpResponse 500 (None :: ChatResponse option)) = Inl (ApiError 500)"
    by (simp_all add: res_ok_def)
  show ?thesis
    by (simp add: ChatWidget_sendMessage_fail [OF _ _ net] ChatWidget_sendMessage_fail [OF _ _ srv]
          ChatWidget2_sendMessage_fail [OF _ _ net] ChatPage_sendMessage_fail [OF _ _ net]
          ChatPage_handleTopicSelect_fail [OF _ net] ChatWidget2_handleTopicSelect_fail [OF _ net]
          suggests_operator_texts)
qed

section \<open>Clarification turns and the escalation prompt\<close>

lemma clarification_block_empty [simp]:
  "suggestedTopics m = None \<Longrightarrow> clarification_block d m = []"
  "suggestedTopics m = Some [] \<Longrightarrow> clarification_block d m = []"
  "responseType m \<noteq> Some Clarification \<Longrightarrow> clarification_block d m = []"
  by (simp_all add: clarification_block_def split: option.splits)

lemma clarification_block_topic_ui: "e \<in> set (clarification_block d m) \<Longrightarrow> is_topic_ui e"
  by (auto simp: clarification_block_def topic_buttons_def split: option.splits if_splits)

lemma clarification_block_not_escalation:
  "e \<in> set (clarification_block d m) \<Longrightarrow> \<not> is_escalation_ui e"
  by (auto simp: clarification_block_def topic_buttons_def split: option.splits if_splits)

text \<open>
  ChatPage: a clarification response never raises the escalation panel, whatever its
  \<open>needs_escalation\<close> flag, neither through \<^verbatim>\<open>sendMessage\<close> nor through
  \<^verbatim>\<open>handleTopicSelect\<close>, and the message it adds is rendered without escalation control.
\<close>

lemma ChatPage_clarification_keeps_panel:
  assumes "response_type r = Clarification" "api_result res = Inr r"
  shows "showEscalation (fst (ChatPage_sendMessage res p)) = showEscalation p"
    and "showEscalation (fst (ChatPage_handleTopicSelect j res p)) = showEscalation p"
    and "\<forall>e \<in> set (ChatPage_renderMessage d i (ChatPage_botMessage r)). \<not> is_escalation_ui e"
  using assms
  by (auto simp: ChatPage_sendMessage_def ChatPage_handleTopicSelect_def Let_def
        ChatPage_renderMessage_def dest: clarification_block_not_escalation split: option.splits)

text \<open>
  The clarification-aware ChatWidget: no hint is appended for a clarification response
  and its message is rendered without the escalation button.
\<close>

lemma ChatWidget2_clarification_no_escalation:
  assumes "response_type r = Clarification" "api_result res = Inr r"
    and "trim (input w) \<noteq> []" "\<not> loading w"
  shows "messages (fst (ChatWidget2_sendMessage res w))
           = messages w @ [plain User (trim (input w)), ChatWidget2_botMsg r]"
    and "\<forall>e \<in> set (ChatWidget2_renderMessage d (ChatWidget2_botMsg r)). \<not> is_escalation_ui e"
  using assms
  by (auto simp: ChatWidget2_sendMessage_ok ChatWidget2_renderMessage_def
        dest: clarification_block_not_escalation)

lemma sample_widget_after_clarification:
  "fst (ChatWidget_sendMessage (ok (sample_response Clarification True ''s1'' (Some sample_topics)))
          sample_widget)
   = sample_widget\<lparr>messages := [plain Assistant WIDGET_GREETING, plain User ''ne rabotaet printer'',
         ChatWidget_botMsg (sample_response Clarification True ''s1'' (Some sample_topics)),
         plain Assistant WIDGET_HINT],
       input := [], loading := False, sessionId := Some ''s1'', unread := 0\<rparr>"
  by (simp add: ChatWidget_sendMessage_ok
        [where r = "sample_response Clarification True ''s1'' (Some sample_topics)"])

lemma sample_widget2_after_clarification:
  "fst (ChatWidget2_sendMessage (ok (sample_response Clarification True ''s1'' (Some sample_topics)))
          sample_widget)
   = sample_widget\<lparr>messages := [plain Assistant WIDGET_GREETING, plain User ''ne rabotaet printer'',
         ChatWidget2_botMsg (sample_response Clarification True ''s1'' (Some sample_topics))],
       input := [], loading := False, sessionId := Some ''s1'', unread := 0\<rparr>"
  by (simp add: ChatWidget2_sendMessage_ok
        [where r = "sample_response Clarification True ''s1'' (Some sample_topics)"])

text \<open>
  Claim C1. For every assistant response with \<open>response_type = clarification\<close> the client
  must not surface an escalation prompt, whatever \<open>needs_escalation\<close> says. ChatPage and
  the clarification-aware ChatWidget guard the prompt with
  \<^verbatim>\<open>response.response_type !== 'clarification'\<close> (the two lemmas above). The ChatWidget of
  src/frontend/src/widget/ChatWidget.tsx has no such guard: for a clarification with
  \<open>needs_escalation = true\<close> it renders the escalation button on the message and appends
  the hint to contact the operator, where the other two components show no escalation
  control for the same response.
\<close>

theorem ChatWidget_clarification_shows_escalation:
  "EscalationButton \<in> set (ChatWidget_render ''/''
      (fst (ChatWidget_sendMessage (ok (sample_response Clarification True ''s1'' (Some sample_topics)))
              sample_widget)))
   \<and> last (messages
        (fst (ChatWidget_sendMessage (ok (sample_response Clarification True ''s1'' (Some sample_topics)))
                sample_widget)))
       = plain Assistant WIDGET_HINT
   \<and> list_all (\<lambda>e. \<not> is_escalation_ui e) (ChatWidget2_render ''/''
      (fst (ChatWidget2_sendMessage (ok (sample_response Clarification True ''s1'' (Some sample_topics)))
              sample_widget)))
   \<and> list_all (\<lambda>e. \<not> is_escalation_ui e) (ChatPage_render
      (fst (ChatPage_sendMessage (ok (sample_response Clarification True ''s1'' (Some sample_topics)))
              sample_page)))"
proof -
  let ?r = "sample_response Clarification True ''s1'' (Some sample_topics)"
  have button: "ChatWidget_renderMessage (ChatWidget_botMsg ?r)
                  = [Markdown ''Utochnite vopros'', EscalationButton]"
    by (simp add: ChatWidget_renderMessage_def)
  have old: "EscalationButton \<in> set (ChatWidget_render ''/'' (fst (ChatWidget_sendMessage (ok ?r) sample_widget)))"
    by (simp add: sample_widget_after_clarification ChatWidget_render_def button)
  have hint: "last (messages (fst (ChatWidget_sendMessage (ok ?r) sample_widget)))
                = plain Assistant WIDGET_HINT"
    by (simp add: sample_widget_after_clarification)
  have new: "list_all (\<lambda>e. \<not> is_escalation_ui e)
               (ChatWidget2_render ''/'' (fst (ChatWidget2_sendMessage (ok ?r) sample_widget)))"
    by (simp only: sample_widget2_after_clarification)
       (simp add: ChatWidget2_render_def ChatWidget2_renderMessage_def clarification_block_def
          topic_buttons_def sample_topics_def)
  have sent: "fst (ChatPage_sendMessage (ok ?r) sample_page)
                = sample_page\<lparr>messages := [plain Assistant PAGE_GREETING,
                      plain User ''ne rabotaet printer'', ChatPage_botMessage ?r],
                    input := [], loading := False, sessionId := Some ''s1''\<rparr>"
    by (simp add: ChatPage_sendMessage_ok [where r = ?r] ChatPage_onResponse_def)
  have page: "list_all (\<lambda>e. \<not> is_escalation_ui e)
               (ChatPage_render (fst (ChatPage_sendMessage (ok ?r) sample_page)))"
    by (simp only: sent)
       (simp add: ChatPage_render_def ChatPage_renderMessage_def clarification_block_def
          topic_buttons_def sample_topics_def)
  from old hint new page show ?thesis by simp
qed

section \<open>A clarification without topics\<close>

lemma enumerate_snoc2:
  "enumerate 0 (xs @ [a, b]) = enumerate 0 xs @ [(length xs, a), (Suc (length xs), b)]"
  by (simp add: enumerate_append_eq)

lemma ChatPage_renderMessage_no_topics:
  assumes "response_type r = Clarification" "suggested_topics r = None \<or> suggested_topics r = Some []"
  shows "ChatPage_renderMessage d i (ChatPage_botMessage r)
           = ChatPage_renderMessage d i
               (ChatPage_botMessage (r\<lparr>response_type := Answer, needs_escalation := False\<rparr>))"
  using assms by (auto simp: ChatPage_renderMessage_def)

lemma ChatWidget2_renderMessage_no_topics:
  assumes "response_type r = Clarification" "suggested_topics r = None \<or> suggested_topics r = Some []"
  shows "ChatWidget2_renderMessage d (ChatWidget2_botMsg r)
           = ChatWidget2_renderMessage d
               (ChatWidget2_botMsg (r\<lparr>response_type := Answer, needs_escalation := False\<rparr>))"
  using assms by (auto simp: ChatWidget2_renderMessage_def)

lemma ChatPage_render_no_topics:
  assumes "response_type r = Clarification" "suggested_topics r = None \<or> suggested_topics r = Some []"
  shows "ChatPage_render (fst (ChatPage_sendMessage (ok r) p))
           = ChatPage_render (fst (ChatPage_sendMessage
               (ok (r\<lparr>response_type := Answer, needs_escalation := False\<rparr>)) p))"
proof (cases "trim (input p) = [] \<or> loading p")
  case True
  then show ?thesis by (simp add: ChatPage_sendMessage_skip)
next
  case False
  then have ne: "trim (input p) \<noteq> []" "\<not> loading p" by simp_all
  show ?thesis
    using assms(1) ChatPage_renderMessage_no_topics [OF assms]
    by (simp add: ChatPage_sendMessage_ok [OF ne api_result_ok] ChatPage_render_def enumerate_snoc2)
qed

lemma ChatWidget2_render_no_topics:
  assumes "response_type r = Clarification" "suggested_topics r = None \<or> suggested_topics r = Some []"
  shows "ChatWidget2_render path (fst (ChatWidget2_sendMessage (ok r) w))
           = ChatWidget2_render path (fst (ChatWidget2_sendMessage
               (ok (r\<lparr>response_type := Answer, needs_escalation := False\<rparr>)) w))"
proof (cases "trim (input w) = [] \<or> loading w")
  case True
  then show ?thesis by (auto simp: ChatWidget2_sendMessage_def Let_def)
next
  case False
  then have ne: "trim (input w) \<noteq> []" "\<not> loading w" by simp_all
  show ?thesis
    using assms(1) ChatWidget2_renderMessage_no_topics [OF assms]
    by (simp add: ChatWidget2_sendMessage_ok [OF ne api_result_ok] ChatWidget2_render_def)
qed

text \<open>
  ChatPage and the clarification-aware ChatWidget treat a clarification whose
  \<open>suggested_topics\<close> list is empty (or absent) as an answer without escalation: what they
  render after such a response is what they render after the same response as an
  answer without \<open>needs_escalation\<close>; the message has no topic button and no escalation
  control, and the page's escalation panel stays as it was.
\<close>

lemma guarded_renders_treat_no_topics_as_answer:
  assumes "response_type r = Clarification"
    and "suggested_topics r = None \<or> suggested_topics r = Some []"
  shows "ChatPage_render (fst (ChatPage_sendMessage (ok r) p))
           = ChatPage_render (fst (ChatPage_sendMessage
               (ok (r\<lparr>response_type := Answer, needs_escalation := False\<rparr>)) p))
       \<and> ChatWidget2_render path (fst (ChatWidget2_sendMessage (ok r) w))
           = ChatWidget2_render path (fst (ChatWidget2_sendMessage
               (ok (r\<lparr>response_type := Answer, needs_escalation := False\<rparr>)) w))
       \<and> (\<forall>e \<in> set (ChatPage_renderMessage d i (ChatPage_botMessage r)).
             \<not> is_topic_ui e \<and> \<not> is_escalation_ui e)
       \<and> (\<forall>e \<in> set (ChatWidget2_renderMessage d (ChatWidget2_botMsg r)).
             \<not> is_topic_ui e \<and> \<not> is_escalation_ui e)
       \<and> showEscalation (fst (ChatPage_sendMessage (ok r) p)) = showEscalation p"
proof -
  have page_msg: "\<forall>e \<in> set (ChatPage_renderMessage d i (ChatPage_botMessage r)).
                    \<not> is_topic_ui e \<and> \<not> is_escalation_ui e"
    using assms by (auto simp: ChatPage_renderMessage_def split: option.splits)
  have widget_msg: "\<forall>e \<in> set (ChatWidget2_renderMessage d (ChatWidget2_botMsg r)).
                    \<not> is_topic_ui e \<and> \<not> is_escalation_ui e"
    using assms by (auto simp: ChatWidget2_renderMessage_def)
  have panel: "showEscalation (fst (ChatPage_sendMessage (ok r) p)) = showEscalation p"
    using assms(1) by (auto simp: ChatPage_sendMessage_def Let_def)
  show ?thesis
    using ChatPage_render_no_topics [OF assms] ChatWidget2_render_no_topics [OF assms]
      page_msg widget_msg panel
    by blast
qed

lemma sample_widget_after_empty_clarification:
  "fst (ChatWidget_sendMessage (ok (sample_response Clarification True ''s1'' (Some []))) sample_widget)
   = sample_widget\<lparr>messages := [plain Assistant WIDGET_GREETING, plain User ''ne rabotaet printer'',
         ChatWidget_botMsg (sample_response Clarification True ''s1'' (Some [])),
         plain Assistant WIDGET_HINT],
       input := [], loading := False, sessionId := Some ''s1'', unread := 0\<rparr>"
  by (simp add: ChatWidget_sendMessage_ok
        [where r = "sample_response Clarification True ''s1'' (Some [])"])

lemma sample_widget_after_plain_answer:
  "fst (ChatWidget_sendMessage (ok (sample_response Answer False ''s1'' (Some []))) sample_widget)
   = sample_widget\<lparr>messages := [plain Assistant WIDGET_GREETING, plain User ''ne rabotaet printer'',
         ChatWidget_botMsg (sample_response Answer False ''s1'' (Some []))],
       input := [], loading := False, sessionId := Some ''s1'', unread := 0\<rparr>"
  by (simp add: ChatWidget_sendMessage_ok
        [where r = "sample_response Answer False ''s1'' (Some [])"])

text \<open>
  Claim C8. For every clarification turn whose \<open>suggested_topics\<close> list is empty the
  client must show no topic-selection control and no escalation trigger, the turn being
  rendered as an answer turn with no escalation offer. ChatPage and the
  clarification-aware ChatWidget do so (the lemma above). The ChatWidget of
  src/frontend/src/widget/ChatWidget.tsx does not look at \<open>response_type\<close>: for a
  clarification with an empty topic list and \<open>needs_escalation = true\<close> it shows no topic
  control, but it renders the escalation button on the message and appends the hint to
  contact the operator, so what it renders is not what it renders for the same response
  as an answer without escalation. It is the missing guard of claim C1, met on a
  clarification without topics.
\<close>

theorem ChatWidget_empty_clarification_shows_escalation:
  "EscalationButton \<in> set (ChatWidget_render ''/''
      (fst (ChatWidget_sendMessage (ok (sample_response Clarification True ''s1'' (Some [])))
              sample_widget)))
   \<and> messages (fst (ChatWidget_sendMessage (ok (sample_response Clarification True ''s1'' (Some [])))
                      sample_widget))
       = [plain Assistant WIDGET_GREETING, plain User ''ne rabotaet printer'',
          ChatWidget_botMsg (sample_response Clarification True ''s1'' (Some [])),
          plain Assistant WIDGET_HINT]
   \<and> list_all (\<lambda>e. \<not> is_topic_ui e) (ChatWidget_render ''/''
      (fst (ChatWidget_sendMessage (ok (sample_response Clarification True ''s1'' (Some [])))
              sample_widget)))
   \<and> list_all (\<lambda>e. \<not> is_escalation_ui e) (ChatWidget_render ''/''
      (fst (ChatWidget_sendMessage (ok (sample_response Answer False ''s1'' (Some [])))
              sample_widget)))
   \<and> ChatWidget_render ''/''
        (fst (ChatWidget_sendMessage (ok (sample_response Clarification True ''s1'' (Some [])))
                sample_widget))
       \<noteq> ChatWidget_render ''/''
            (fst (ChatWidget_sendMessage (ok (sample_response Answer False ''s1'' (Some [])))
                    sample_widget))
   \<and> ChatWidget2_render ''/''
        (fst (ChatWidget2_sendMessage (ok (sample_response Clarification True ''s1'' (Some [])))
                sample_widget))
       = ChatWidget2_render ''/''
            (fst (ChatWidget2_sendMessage (ok (sample_response Answer False ''s1'' (Some [])))
                    sample_widget))
   \<and> ChatPage_render
        (fst (ChatPage_sendMessage (ok (sample_response Clarification True ''s1'' (Some [])))
                sample_page))
       = ChatPage_render
            (fst (ChatPage_sendMessage (ok (sample_response Answer False ''s1'' (Some [])))
                    sample_page))"
proof -
  let ?c = "sample_response Clarification True ''s1'' (Some [])"
  let ?a = "sample_response Answer False ''s1'' (Some [])"
  have a: "?c\<lparr>response_type := Answer, needs_escalation := False\<rparr> = ?a"
    by (simp add: sample_response_def)
  have rc: "ChatWidget_render ''/'' (fst (ChatWidget_sendMessage (ok ?c) sample_widget))
              = [ToggleButton True None, Markdown WIDGET_GREETING, Markdown ''ne rabotaet printer'',
                 Markdown ''Utochnite vopros'', EscalationButton, Markdown WIDGET_HINT,
                 InputArea [] False True]"
    by (simp only: sample_widget_after_empty_clarification)
       (simp add: ChatWidget_render_def ChatWidget_renderMessage_def trim_def)
  have ra: "ChatWidget_render ''/'' (fst (ChatWidget_sendMessage (ok ?a) sample_widget))
              = [ToggleButton True None, Markdown WIDGET_GREETING, Markdown ''ne rabotaet printer'',
                 Markdown ''Utochnite vopros'', InputArea [] False True]"
    by (simp only: sample_widget_after_plain_answer)
       (simp add: ChatWidget_render_def ChatWidget_renderMessage_def trim_def)
  have msgs: "messages (fst (ChatWidget_sendMessage (ok ?c) sample_widget))
       = [plain Assistant WIDGET_GREETING, plain User ''ne rabotaet printer'',
          ChatWidget_botMsg ?c, plain Assistant WIDGET_HINT]"
    by (simp add: sample_widget_after_empty_clarification)
  have sib: "ChatWidget2_render ''/'' (fst (ChatWidget2_sendMessage (ok ?c) sample_widget))
               = ChatWidget2_render ''/'' (fst (ChatWidget2_sendMessage (ok ?a) sample_widget))"
    "ChatPage_render (fst (ChatPage_sendMessage (ok ?c) sample_page))
               = ChatPage_render (fst (ChatPage_sendMessage (ok ?a) sample_page))"
    using guarded_renders_treat_no_topics_as_answer
            [of ?c sample_page "''/''" sample_widget False 0]
    by (simp_all add: a)
  show ?thesis
    by (simp add: rc ra msgs sib)
qed

section \<open>Submitting an escalation twice\<close>

lemma ChatPage_step_sent:
  assumes "escalationSent st"
  shows "escalationSent (fst (ChatPage_step ev st))
       \<and> list_all (\<lambda>r. \<not> is_escalation_req r) (snd (ChatPage_step ev st))"
  using assms
  by (cases ev)
     (auto simp: ChatPage_step_def ChatPage_sendMessage_def ChatPage_handleTopicSelect_def
        ChatPage_handleFeedback_def ChatPage_onResponse_def Let_def ApiClient_sendMessage_def
        ApiClient_sendFeedback_def split: sum.splits option.splits)

lemma ChatPage_run_sent:
  "escalationSent st \<Longrightarrow>
     escalationSent (fst (ChatPage_run evs st))
     \<and> list_all (\<lambda>r. \<not> is_escalation_req r) (snd (ChatPage_run evs st))"
proof (induction evs arbitrary: st)
  case Nil
  then show ?case by simp
next
  case (Cons ev evs)
  from ChatPage_step_sent [OF Cons.prems, of ev]
  have s: "escalationSent (fst (ChatPage_step ev st))"
    and r: "list_all (\<lambda>r. \<not> is_escalation_req r) (snd (ChatPage_step ev st))"
    by simp_all
  from Cons.IH [OF s] r show ?case
    by (simp add: split_beta Let_def)
qed

lemma ChatPage_renderMessage_no_escalation:
  "e \<in> set (ChatPage_renderMessage d i m) \<Longrightarrow> \<not> is_escalation_ui e"
  by (auto simp: ChatPage_renderMessage_def dest: clarification_block_not_escalation
        split: option.splits if_splits)

lemma ChatPage_render_sent:
  "escalationSent st \<Longrightarrow> \<forall>e \<in> set (ChatPage_render st). \<not> is_escalation_ui e"
  by (auto simp: ChatPage_render_def dest: ChatPage_renderMessage_no_escalation)

text \<open>
  ChatPage has the one-shot flag: a successful \<^verbatim>\<open>handleEscalation\<close> sets
  \<open>escalationSent\<close>, which nothing resets; from then on the form is never rendered and
  no event of the page issues another \<open>createEscalation\<close>.
\<close>

lemma ChatPage_one_shot:
  assumes "truthy (sessionId p)" "api_result res = Inr r"
  shows "escalationSent (fst (ChatPage_handleEscalation res p))"
    and "escalationSent (fst (ChatPage_run evs (fst (ChatPage_handleEscalation res p))))"
    and "list_all (\<lambda>r. \<not> is_escalation_req r)
           (snd (ChatPage_run evs (fst (ChatPage_handleEscalation res p))))"
    and "\<forall>e \<in> set (ChatPage_render (fst (ChatPage_run evs (fst (ChatPage_handleEscalation res p))))).
           \<not> is_escalation_ui e"
proof -
  show sent: "escalationSent (fst (ChatPage_handleEscalation res p))"
    using assms by (cases "sessionId p") (auto simp: ChatPage_handleEscalation_def Let_def)
  from ChatPage_run_sent [OF sent, of evs]
  show run: "escalationSent (fst (ChatPage_run evs (fst (ChatPage_handleEscalation res p))))"
    and "list_all (\<lambda>r. \<not> is_escalation_req r)
           (snd (ChatPage_run evs (fst (ChatPage_handleEscalation res p))))"
    by simp_all
  from ChatPage_render_sent [OF run]
  show "\<forall>e \<in> set (ChatPage_render (fst (ChatPage_run evs (fst (ChatPage_handleEscalation res p))))).
           \<not> is_escalation_ui e" .
qed

lemma sample_widget_after_answer:
  "fst (ChatWidget_sendMessage (ok (sample_response Answer True ''s1'' None)) sample_widget)
   = sample_widget\<lparr>messages := [plain Assistant WIDGET_GREETING, plain User ''ne rabotaet printer'',
         ChatWidget_botMsg (sample_response Answer True ''s1'' None),
         plain Assistant WIDGET_HINT],
       input := [], loading := False, sessionId := Some ''s1'', unread := 0\<rparr>"
  by (simp add: ChatWidget_sendMessage_ok [where r = "sample_response Answer True ''s1'' None"])

lemma sample_widget2_after_answer:
  "fst (ChatWidget2_sendMessage (ok (sample_response Answer True ''s1'' None)) sample_widget)
   = sample_widget\<lparr>messages := [plain Assistant WIDGET_GREETING, plain User ''ne rabotaet printer'',
         ChatWidget2_botMsg (sample_response Answer True ''s1'' None),
         plain Assistant WIDGET_HINT2],
       input := [], loading := False, sessionId := Some ''s1'', unread := 0\<rparr>"
  by (simp add: ChatWidget2_sendMessage_ok [where r = "sample_response Answer True ''s1'' None"])

text \<open>
  Claim C3. After one successful \<open>createEscalation\<close> the client must not let a second
  ticket be submitted for the session. ChatPage keeps this (lemma \<open>ChatPage_one_shot\<close>).
  ChatWidget has no flag, in either copy: its \<^verbatim>\<open>handleEscalation\<close> changes nothing but
  the message list, the button stays on the message, and a second click after a
  successful submission issues a second \<open>createEscalation\<close> for the same session.
\<close>

theorem ChatWidget_submits_second_ticket:
  "snd (ChatWidget_run
          [WClickEscalation 2 (ok sample_escalation), WClickEscalation 2 (ok sample_escalation)]
          (fst (ChatWidget_sendMessage (ok (sample_response Answer True ''s1'' None)) sample_widget)))
     = [EscalationReq ''s1'' None None, EscalationReq ''s1'' None None]
   \<and> EscalationButton \<in> set (ChatWidget_render ''/''
        (fst (ChatWidget_run
          [WClickEscalation 2 (ok sample_escalation), WClickEscalation 2 (ok sample_escalation)]
          (fst (ChatWidget_sendMessage (ok (sample_response Answer True ''s1'' None)) sample_widget)))))
   \<and> snd (ChatWidget2_run
          [WClickEscalation 2 (ok sample_escalation), WClickEscalation 2 (ok sample_escalation)]
          (fst (ChatWidget2_sendMessage (ok (sample_response Answer True ''s1'' None)) sample_widget)))
     = [EscalationReq ''s1'' None None, EscalationReq ''s1'' None None]"
  by (simp add: sample_widget_after_answer sample_widget2_after_answer ChatWidget_step_def
        ChatWidget2_step_def ChatWidget_handleEscalation_def ChatWidget_effect_def
        ApiClient_createEscalation_def ChatWidget_render_def ChatWidget_renderMessage_def Let_def)

section \<open>The session token\<close>

lemma ChatPage_step_token:
  assumes "sessionId st = Some t" "t \<noteq> []"
  shows "sessionId (fst (ChatPage_step ev st)) = Some t
       \<and> list_all (chat_with (Some t)) (snd (ChatPage_step ev st))"
  using assms
  by (cases ev)
     (auto simp: ChatPage_step_def ChatPage_sendMessage_def ChatPage_handleTopicSelect_def
        ChatPage_handleFeedback_def ChatPage_handleEscalation_def ChatPage_onResponse_def Let_def
        ApiClient_sendMessage_def ApiClient_sendFeedback_def ApiClient_createEscalation_def
        split: sum.splits option.splits)

lemma ChatPage_run_token:
  "sessionId st = Some t \<Longrightarrow> t \<noteq> [] \<Longrightarrow>
     sessionId (fst (ChatPage_run evs st)) = Some t
     \<and> list_all (chat_with (Some t)) (snd (ChatPage_run evs st))"
proof (induction evs arbitrary: st)
  case Nil
  then show ?case by simp
next
  case (Cons ev evs)
  from ChatPage_step_token [OF Cons.prems, of ev]
  have s: "sessionId (fst (ChatPage_step ev st)) = Some t"
    and r: "list_all (chat_with (Some t)) (snd (ChatPage_step ev st))"
    by simp_all
  from Cons.IH [OF s Cons.prems(2)] r show ?case
    by (simp add: split_beta Let_def)
qed

lemma ChatWidget_step_token:
  assumes "sessionId st = Some t" "t \<noteq> []"
  shows "sessionId (fst (ChatWidget_step ev st)) = Some t
       \<and> list_all (chat_with (Some t)) (snd (ChatWidget_step ev st))"
  using assms
  by (cases ev)
     (auto simp: ChatWidget_step_def ChatWidget_sendMessage_def ChatWidget_handleEscalation_def
        ChatWidget_effect_def Let_def ApiClient_sendMessage_def ApiClient_createEscalation_def
        split: sum.splits option.splits)

lemma ChatWidget_run_token:
  "sessionId st = Some t \<Longrightarrow> t \<noteq> [] \<Longrightarrow>
     sessionId (fst (ChatWidget_run evs st)) = Some t
     \<and> list_all (chat_with (Some t)) (snd (ChatWidget_run evs st))"
proof (induction evs arbitrary: st)
  case Nil
  then show ?case by simp
next
  case (Cons ev evs)
  from ChatWidget_step_token [OF Cons.prems, of ev]
  have s: "sessionId (fst (ChatWidget_step ev st)) = Some t"
    and r: "list_all (chat_with (Some t)) (snd (ChatWidget_step ev st))"
    by simp_all
  from Cons.IH [OF s Cons.prems(2)] r show ?case
    by (simp add: split_beta Let_def)
qed

lemma ChatWidget2_step_token:
  assumes "sessionId st = Some t" "t \<noteq> []"
  shows "sessionId (fst (ChatWidget2_step ev st)) = Some t
       \<and> list_all (chat_with (Some t)) (snd (ChatWidget2_step ev st))"
  using assms
  by (cases ev)
     (auto simp: ChatWidget2_step_def ChatWidget2_sendMessage_def ChatWidget2_handleTopicSelect_def
        ChatWidget_handleEscalation_def ChatWidget_effect_def Let_def ApiClient_sendMessage_def
        ApiClient_createEscalation_def split: sum.splits option.splits)

lemma ChatWidget2_run_token:
  "sessionId st = Some t \<Longrightarrow> t \<noteq> [] \<Longrightarrow>
     sessionId (fst (ChatWidget2_run evs st)) = Some t
     \<and> list_all (chat_with (Some t)) (snd (ChatWidget2_run evs st))"
proof (induction evs arbitrary: st)
  case Nil
  then show ?case by simp
next
  case (Cons ev evs)
  from ChatWidget2_step_token [OF Cons.prems, of ev]
  have s: "sessionId (fst (ChatWidget2_step ev st)) = Some t"
    and r: "list_all (chat_with (Some t)) (snd (ChatWidget2_step ev st))"
    by simp_all
  from Cons.IH [OF s Cons.prems(2)] r show ?case
    by (simp add: split_beta Let_def)
qed

lemma transcript_of_update:
  "transcript_of (AList.update k v s) k' = (if k' = k then v else transcript_of s k')"
  by (simp add: transcript_of_def update_conv')

lemma longest_token: "k \<in> set ks \<Longrightarrow> length k \<le> foldr (\<lambda>k n. max (length k) n) ks 0"
  by (induction ks) auto

text \<open>The allocator returns a token that is not in use.\<close>

lemma engine_alloc_fresh: "engine_alloc ks \<notin> set ks"
proof
  assume "engine_alloc ks \<in> set ks"
  from longest_token [OF this] show False
    by (simp add: engine_alloc_def)
qed

lemma engine_sendTurn_keys:
  "set (map fst s) \<subseteq> set (map fst (fst (engine_sendTurn reply now sid question s)))"
  by (auto simp: engine_sendTurn_def Let_def dom_update split: option.splits)

lemma engine_sendTurn_returned:
  "snd (engine_sendTurn reply now sid question s) = Some (k, a) \<Longrightarrow>
     k \<in> set (map fst (fst (engine_sendTurn reply now sid question s)))"
  by (auto simp: engine_sendTurn_def Let_def dom_update split: option.splits)

text \<open>Every token that a history of calls has returned is in use after it.\<close>

lemma engine_run_keys:
  "set (map fst s) \<union> set (returned_tokens (snd (engine_run reply cs s)))
     \<subseteq> set (map fst (fst (engine_run reply cs s)))"
proof (induction cs arbitrary: s)
  case Nil
  show ?case by (simp add: returned_tokens_def)
next
  case (Cons c cs)
  obtain sid question now where c: "c = (sid, question, now)"
    by (cases c)
  let ?s1 = "fst (engine_sendTurn reply now sid question s)"
  let ?out = "snd (engine_sendTurn reply now sid question s)"
  have keys: "set (map fst s) \<subseteq> set (map fst ?s1)"
    by (rule engine_sendTurn_keys)
  have out: "set (returned_tokens [?out]) \<subseteq> set (map fst ?s1)"
  proof (cases ?out)
    case None
    then show ?thesis by (simp add: returned_tokens_def)
  next
    case (Some ka)
    obtain k a where "ka = (k, a)" by (cases ka)
    with Some engine_sendTurn_returned [of reply now sid question s k a] show ?thesis
      by (simp add: returned_tokens_def)
  qed
  have app: "returned_tokens (?out # snd (engine_run reply cs ?s1))
               = returned_tokens [?out] @ returned_tokens (snd (engine_run reply cs ?s1))"
    by (simp add: returned_tokens_def)
  have run: "engine_run reply (c # cs) s
               = (fst (engine_run reply cs ?s1), ?out # snd (engine_run reply cs ?s1))"
    by (simp add: c split_beta Let_def)
  from Cons.IH [of ?s1] keys out show ?case
    by (simp only: run fst_conv snd_conv app set_append) blast
qed

lemma engine_sendTurn_fresh:
  assumes "reply [] question = Some a"
  shows "snd (engine_sendTurn reply now None question s) = Some (engine_alloc (map fst s), a)"
    and "transcript_of (fst (engine_sendTurn reply now None question s)) (engine_alloc (map fst s))
           = [\<lparr>turn_role = User, turn_content = question, turn_timestamp = now\<rparr>,
              \<lparr>turn_role = Assistant, turn_content = a, turn_timestamp = now\<rparr>]"
    and "\<forall>k \<in> set (map fst s).
           transcript_of (fst (engine_sendTurn reply now None question s)) k = transcript_of s k"
proof -
  show "snd (engine_sendTurn reply now None question s) = Some (engine_alloc (map fst s), a)"
    using assms by (simp add: engine_sendTurn_def Let_def)
  show "transcript_of (fst (engine_sendTurn reply now None question s)) (engine_alloc (map fst s))
           = [\<lparr>turn_role = User, turn_content = question, turn_timestamp = now\<rparr>,
              \<lparr>turn_role = Assistant, turn_content = a, turn_timestamp = now\<rparr>]"
    using assms by (simp add: engine_sendTurn_def Let_def transcript_of_update)
  show "\<forall>k \<in> set (map fst s).
           transcript_of (fst (engine_sendTurn reply now None question s)) k = transcript_of s k"
  proof
    fix k assume "k \<in> set (map fst s)"
    with engine_alloc_fresh [of "map fst s"] have "k \<noteq> engine_alloc (map fst s)" by blast
    then show "transcript_of (fst (engine_sendTurn reply now None question s)) k = transcript_of s k"
      using assms by (simp add: engine_sendTurn_def Let_def transcript_of_update)
  qed
qed

lemma engine_sendTurn_continue:
  assumes "reply (transcript_of s t) question = Some b"
  shows "snd (engine_sendTurn reply now (Some t) question s) = Some (t, b)"
    and "transcript_of (fst (engine_sendTurn reply now (Some t) question s)) t
           = transcript_of s t
               @ [\<lparr>turn_role = User, turn_content = question, turn_timestamp = now\<rparr>,
                  \<lparr>turn_role = Assistant, turn_content = b, turn_timestamp = now\<rparr>]"
  using assms by (simp_all add: engine_sendTurn_def Let_def transcript_of_update)

text \<open>
  Claim C4. The session token returned by the first \<open>sendTurn\<close> is stable and is supplied
  on every subsequent \<open>sendTurn\<close> of the session; a \<open>sendTurn\<close> issued with no token starts
  a new session whose transcript shares no turns with any prior session.

  On the code: a client without token (ChatPage and both copies of ChatWidget) sends its
  first message with \<open>session_id\<close> \<^verbatim>\<open>null\<close>; when that call succeeds (a status in
  200..299 and a body that parses to \<open>r\<close>) and returns a token (a non-empty string), the
  client stores it, and over every later sequence of events (typing, sending, topic
  clicks, escalation, feedback, whatever the later responses carry or however they
  fail) the stored token stays the same and every \<open>sendTurn\<close> request carries it.

  On the engine as the spec describes it: a call without token returns a token that is
  in use by no session and that no call of the history before it has returned; the
  transcript of that token consists of the two turns of this call, the answer being
  computed from an empty history; the transcript of every earlier session stays as it
  was. A call with a token returns that token and appends its two turns to the
  transcript of that token.
\<close>

theorem session_token_reused:
  assumes "res = HttpResponse st (Some r)" and "200 \<le> st" and "st \<le> 299"
    and "session_id r \<noteq> []"
    and "\<not> truthy (sessionId p)" and "trim (input p) \<noteq> []" and "\<not> loading p"
    and "\<not> truthy (sessionId w)" and "trim (input w) \<noteq> []" and "\<not> loading w"
    and "reply [] question = Some a"
  shows "snd (ChatPage_sendMessage res p) = [ChatReq (trim (input p)) None]
       \<and> sessionId (fst (ChatPage_run evs (fst (ChatPage_sendMessage res p)))) = Some (session_id r)
       \<and> list_all (chat_with (Some (session_id r)))
            (snd (ChatPage_run evs (fst (ChatPage_sendMessage res p))))
       \<and> snd (ChatWidget_sendMessage res w) = [ChatReq (trim (input w)) None]
       \<and> sessionId (fst (ChatWidget_run wevs (fst (ChatWidget_sendMessage res w)))) = Some (session_id r)
       \<and> list_all (chat_with (Some (session_id r)))
            (snd (ChatWidget_run wevs (fst (ChatWidget_sendMessage res w))))
       \<and> snd (ChatWidget2_sendMessage res w) = [ChatReq (trim (input w)) None]
       \<and> sessionId (fst (ChatWidget2_run wevs (fst (ChatWidget2_sendMessage res w)))) = Some (session_id r)
       \<and> list_all (chat_with (Some (session_id r)))
            (snd (ChatWidget2_run wevs (fst (ChatWidget2_sendMessage res w))))
       \<and> snd (engine_sendTurn reply now None question s) = Some (engine_alloc (map fst s), a)
       \<and> engine_alloc (map fst s) \<notin> set (map fst s)
       \<and> engine_alloc (map fst (fst (engine_run reply cs s)))
            \<notin> set (returned_tokens (snd (engine_run reply cs s)))
       \<and> transcript_of (fst (engine_sendTurn reply now None question s)) (engine_alloc (map fst s))
           = [\<lparr>turn_role = User, turn_content = question, turn_timestamp = now\<rparr>,
              \<lparr>turn_role = Assistant, turn_content = a, turn_timestamp = now\<rparr>]
       \<and> (\<forall>k \<in> set (map fst s).
             transcript_of (fst (engine_sendTurn reply now None question s)) k = transcript_of s k)
       \<and> (reply (transcript_of s t) question = Some b \<longrightarrow>
            snd (engine_sendTurn reply now (Some t) question s) = Some (t, b)
            \<and> transcript_of (fst (engine_sendTurn reply now (Some t) question s)) t
                = transcript_of s t
                    @ [\<lparr>turn_role = User, turn_content = question, turn_timestamp = now\<rparr>,
                       \<lparr>turn_role = Assistant, turn_content = b, turn_timestamp = now\<rparr>])"
proof -
  have ok: "api_result res = Inr r"
    using assms(1,2,3) by (simp add: res_ok_def)
  have none: "or_undefined (sessionId p) = None" "or_undefined (sessionId w) = None"
    using assms(5,8) by (simp_all add: or_undefined_def)
  have p1: "snd (ChatPage_sendMessage res p) = [ChatReq (trim (input p)) None]"
    and p2: "sessionId (fst (ChatPage_sendMessage res p)) = Some (session_id r)"
    using ok assms(5,6,7) none by (simp_all add: ChatPage_sendMessage_ok)
  have w1: "snd (ChatWidget_sendMessage res w) = [ChatReq (trim (input w)) None]"
    and w2: "sessionId (fst (ChatWidget_sendMessage res w)) = Some (session_id r)"
    using ok assms(8,9,10) none by (simp_all add: ChatWidget_sendMessage_ok)
  have v1: "snd (ChatWidget2_sendMessage res w) = [ChatReq (trim (input w)) None]"
    and v2: "sessionId (fst (ChatWidget2_sendMessage res w)) = Some (session_id r)"
    using ok assms(8,9,10) none by (simp_all add: ChatWidget2_sendMessage_ok)
  note page = ChatPage_run_token [OF p2 assms(4), of evs]
  note widget = ChatWidget_run_token [OF w2 assms(4), of wevs]
  note widget2 = ChatWidget2_run_token [OF v2 assms(4), of wevs]
  note engine = engine_sendTurn_fresh
    [where reply = reply and question = question and a = a and now = now and s = s, OF assms(11)]
  have fresh: "engine_alloc (map fst s) \<notin> set (map fst s)"
    by (rule engine_alloc_fresh)
  have never: "engine_alloc (map fst (fst (engine_run reply cs s)))
                 \<notin> set (returned_tokens (snd (engine_run reply cs s)))"
    using engine_run_keys [of s reply cs]
      engine_alloc_fresh [of "map fst (fst (engine_run reply cs s))"]
    by blast
  have cont: "reply (transcript_of s t) question = Some b \<longrightarrow>
            snd (engine_sendTurn reply now (Some t) question s) = Some (t, b)
            \<and> transcript_of (fst (engine_sendTurn reply now (Some t) question s)) t
                = transcript_of s t
                    @ [\<lparr>turn_role = User, turn_content = question, turn_timestamp = now\<rparr>,
                       \<lparr>turn_role = Assistant, turn_content = b, turn_timestamp = now\<rparr>]"
    using engine_sendTurn_continue [of reply s t question b now] by blast
  show ?thesis
    using p1 w1 v1 page widget widget2 engine fresh never cont by blast
qed

lemma sample_store_alloc: "engine_alloc (map fst sample_store) = ''sss''"
  by (simp add: sample_store_def engine_alloc_def)

theorem session_token_reused_witness:
  "ok (sample_response Answer False ''s1'' None) = HttpResponse 200 (Some (sample_response Answer False ''s1'' None))
   \<and> session_id (sample_response Answer False ''s1'' None) \<noteq> []
   \<and> \<not> truthy (sessionId sample_page) \<and> trim (input sample_page) \<noteq> [] \<and> \<not> loading sample_page
   \<and> \<not> truthy (sessionId sample_widget) \<and> trim (input sample_widget) \<noteq> [] \<and> \<not> loading sample_widget
   \<and> (\<lambda>old q. Some ''otvet'') [] ''vopros'' = Some ''otvet''
   \<and> snd (ChatPage_sendMessage (ok (sample_response Answer False ''s1'' None)) sample_page)
       = [ChatReq ''ne rabotaet printer'' None]
   \<and> list_all (chat_with (Some ''s1''))
        (snd (ChatPage_run [SetInput ''spasibo'', Send NetworkError]
               (fst (ChatPage_sendMessage (ok (sample_response Answer False ''s1'' None)) sample_page))))
   \<and> list_all (chat_with (Some ''s1''))
        (snd (ChatWidget_run [WSetInput ''spasibo'', WSend NetworkError]
               (fst (ChatWidget_sendMessage (ok (sample_response Answer False ''s1'' None)) sample_widget))))
   \<and> snd (engine_sendTurn (\<lambda>old q. Some ''otvet'') 7 None ''vopros'' sample_store)
       = Some (''sss'', ''otvet'')
   \<and> ''sss'' \<notin> set (map fst sample_store)
   \<and> returned_tokens (snd (engine_run (\<lambda>old q. Some ''otvet'')
            [(None, ''privet'', 1), (Some ''s1'', ''spasibo'', 2), (None, ''privet'', 3)] sample_store))
       = [''sss'', ''s1'', ''ssss'']
   \<and> engine_alloc (map fst (fst (engine_run (\<lambda>old q. Some ''otvet'')
            [(None, ''privet'', 1), (Some ''s1'', ''spasibo'', 2), (None, ''privet'', 3)] sample_store)))
       \<notin> set (returned_tokens (snd (engine_run (\<lambda>old q. Some ''otvet'')
            [(None, ''privet'', 1), (Some ''s1'', ''spasibo'', 2), (None, ''privet'', 3)] sample_store)))
   \<and> transcript_of (fst (engine_sendTurn (\<lambda>old q. Some ''otvet'') 7 None ''vopros'' sample_store)) ''s1''
       = transcript_of sample_store ''s1''
   \<and> snd (engine_sendTurn (\<lambda>old q. Some ''otvet'') 7 (Some ''s1'') ''vopros'' sample_store)
       = Some (''s1'', ''otvet'')
   \<and> length (transcript_of
        (fst (engine_sendTurn (\<lambda>old q. Some ''otvet'') 7 (Some ''s1'') ''vopros'' sample_store)) ''s1'') = 4"
proof -
  note t = session_token_reused
          [where res = "ok (sample_response Answer False ''s1'' None)" and st = 200
             and r = "sample_response Answer False ''s1'' None"
             and p = sample_page and w = sample_widget and s = sample_store
             and cs = "[(None, ''privet'', 1), (Some ''s1'', ''spasibo'', 2), (None, ''privet'', 3)]"
             and t = "''s1''" and b = "''otvet''"
             and reply = "\<lambda>old q. Some ''otvet''" and question = "''vopros''" and a = "''otvet''"
             and evs = "[SetInput ''spasibo'', Send NetworkError]"
             and wevs = "[WSetInput ''spasibo'', WSend NetworkError]" and now = 7]
  have hyps: "ok (sample_response Answer False ''s1'' None)
                = HttpResponse 200 (Some (sample_response Answer False ''s1'' None))"
    "session_id (sample_response Answer False ''s1'' None) \<noteq> []"
    "\<not> truthy (sessionId sample_page)" "trim (input sample_page) \<noteq> []" "\<not> loading sample_page"
    "\<not> truthy (sessionId sample_widget)" "trim (input sample_widget) \<noteq> []"
    "\<not> loading sample_widget" "(\<lambda>old q. Some ''otvet'') [] ''vopros'' = Some ''otvet''"
    by (simp_all add: ok_def)
  have keys: "''s1'' \<in> set (map fst sample_store)" "''sss'' \<notin> set (map fst sample_store)"
    and old: "length (transcript_of sample_store ''s1'') = 2"
    by (simp_all add: sample_store_def transcript_of_def)
  have run: "returned_tokens (snd (engine_run (\<lambda>old q. Some ''otvet'')
            [(None, ''privet'', 1), (Some ''s1'', ''spasibo'', 2), (None, ''privet'', 3)] sample_store))
       = [''sss'', ''s1'', ''ssss'']"
    by (simp add: sample_store_def engine_sendTurn_def engine_alloc_def returned_tokens_def
          transcript_of_def Let_def)
  from t [OF hyps(1) _ _ hyps(2-9)] have facts:
    "snd (ChatPage_sendMessage (ok (sample_response Answer False ''s1'' None)) sample_page)
       = [ChatReq (trim (input sample_page)) None]"
    "list_all (chat_with (Some (session_id (sample_response Answer False ''s1'' None))))
        (snd (ChatPage_run [SetInput ''spasibo'', Send NetworkError]
               (fst (ChatPage_sendMessage (ok (sample_response Answer False ''s1'' None)) sample_page))))"
    "list_all (chat_with (Some (session_id (sample_response Answer False ''s1'' None))))
        (snd (ChatWidget_run [WSetInput ''spasibo'', WSend NetworkError]
               (fst (ChatWidget_sendMessage (ok (sample_response Answer False ''s1'' None)) sample_widget))))"
    "snd (engine_sendTurn (\<lambda>old q. Some ''otvet'') 7 None ''vopros'' sample_store)
       = Some (engine_alloc (map fst sample_store), ''otvet'')"
    "engine_alloc (map fst (fst (engine_run (\<lambda>old q. Some ''otvet'')
            [(None, ''privet'', 1), (Some ''s1'', ''spasibo'', 2), (None, ''privet'', 3)] sample_store)))
       \<notin> set (returned_tokens (snd (engine_run (\<lambda>old q. Some ''otvet'')
            [(None, ''privet'', 1), (Some ''s1'', ''spasibo'', 2), (None, ''privet'', 3)] sample_store)))"
    "\<forall>k \<in> set (map fst sample_store).
       transcript_of (fst (engine_sendTurn (\<lambda>old q. Some ''otvet'') 7 None ''vopros'' sample_store)) k
         = transcript_of sample_store k"
    "snd (engine_sendTurn (\<lambda>old q. Some ''otvet'') 7 (Some ''s1'') ''vopros'' sample_store)
       = Some (''s1'', ''otvet'')"
    "transcript_of (fst (engine_sendTurn (\<lambda>old q. Some ''otvet'') 7 (Some ''s1'') ''vopros'' sample_store)) ''s1''
       = transcript_of sample_store ''s1''
           @ [\<lparr>turn_role = User, turn_content = ''vopros'', turn_timestamp = 7\<rparr>,
              \<lparr>turn_role = Assistant, turn_content = ''otvet'', turn_timestamp = 7\<rparr>]"
    by simp_all
  from facts(6) keys(1)
  have same: "transcript_of (fst (engine_sendTurn (\<lambda>old q. Some ''otvet'') 7 None ''vopros'' sample_store)) ''s1''
                = transcript_of sample_store ''s1''"
    by blast
  have len: "length (transcript_of
        (fst (engine_sendTurn (\<lambda>old q. Some ''otvet'') 7 (Some ''s1'') ''vopros'' sample_store)) ''s1'') = 4"
    by (simp only: facts(8) length_append old) simp
  from facts(1,2,3,4,7) have client:
    "snd (ChatPage_sendMessage (ok (sample_response Answer False ''s1'' None)) sample_page)
       = [ChatReq ''ne rabotaet printer'' None]"
    "list_all (chat_with (Some ''s1''))
        (snd (ChatPage_run [SetInput ''spasibo'', Send NetworkError]
               (fst (ChatPage_sendMessage (ok (sample_response Answer False ''s1'' None)) sample_page))))"
    "list_all (chat_with (Some ''s1''))
        (snd (ChatWidget_run [WSetInput ''spasibo'', WSend NetworkError]
               (fst (ChatWidget_sendMessage (ok (sample_response Answer False ''s1'' None)) sample_widget))))"
    "snd (engine_sendTurn (\<lambda>old q. Some ''otvet'') 7 None ''vopros'' sample_store)
       = Some (''sss'', ''otvet'')"
    by (simp_all add: sample_store_alloc)
  show ?thesis
    using hyps keys(2) run facts(5,7) same len client by blast
qed

section \<open>The operator panel, case by case\<close>

lemma loadEscalations_skip:
  "\<not> truthy (token w) \<Longrightarrow> OperatorPanel_loadEscalations res w = (w, [])"
  by (cases "token w") (auto simp: OperatorPanel_loadEscalations_def)

lemma loadEscalations_req:
  "token w = Some tok \<Longrightarrow> tok \<noteq> [] \<Longrightarrow>
     snd (OperatorPanel_loadEscalations res w) = [ListReq tok (or_undefined (Some (filter_op w)))]"
  by (simp add: OperatorPanel_loadEscalations_def Let_def ApiClient_getEscalations_def)

lemma loadEscalations_keeps [simp]:
  "timers (fst (OperatorPanel_loadEscalations res w)) = timers w"
  "hidden (fst (OperatorPanel_loadEscalations res w)) = hidden w"
  "mounted (fst (OperatorPanel_loadEscalations res w)) = mounted w"
  "filter_op (fst (OperatorPanel_loadEscalations res w)) = filter_op w"
  by (auto simp: OperatorPanel_loadEscalations_def Let_def split: option.splits sum.splits)

lemma loadEscalations_token:
  "token (fst (OperatorPanel_loadEscalations res w))
     = (if truthy (token w) \<and> isl (api_result res) then None else token w)"
  "op_token (fst (OperatorPanel_loadEscalations res w))
     = (if truthy (token w) \<and> isl (api_result res) then None else op_token w)"
  by (auto simp: OperatorPanel_loadEscalations_def Let_def split: option.splits sum.splits)

lemma loadEscalations_fail:
  assumes "token w = Some tok" "tok \<noteq> []" "api_result res = Inl e"
  shows "OperatorPanel_loadEscalations res w
           = (w\<lparr>token := None, loading_op := False, op_token := None\<rparr>,
              [ListReq tok (or_undefined (Some (filter_op w)))])"
  using assms
  by (simp add: OperatorPanel_loadEscalations_def Let_def ApiClient_getEscalations_def)

lemma effect_cleanup_again:
  assumes "\<not> truthy (token (fst (OperatorPanel_effect res w)))"
  shows "OperatorPanel_effect res' (OperatorPanel_cleanup (fst (OperatorPanel_effect res w)))
           = (fst (OperatorPanel_effect res w), [])"
  using assms
  by (simp add: OperatorPanel_effect_def OperatorPanel_cleanup_def split_beta loadEscalations_skip)

lemma effect_deps_changed:
  assumes "deps (fst (OperatorPanel_effect res w)) \<noteq> deps w"
  shows "\<not> truthy (token (fst (OperatorPanel_effect res w)))"
  using assms
  by (auto simp: OperatorPanel_effect_def deps_def split_beta loadEscalations_token
        split: if_splits)

text \<open>
  The second run of the effect in \<open>OperatorPanel_commit\<close> finds no token: it issues
  nothing, and it registers a timer in place of the one its cleanup has just cleared.
\<close>

lemma commit_eq:
  "OperatorPanel_commit old res w
     = (if deps w = old then (w, []) else OperatorPanel_effect res (OperatorPanel_cleanup w))"
proof (cases "deps w = old")
  case True
  then show ?thesis by (simp add: OperatorPanel_commit_def)
next
  case False
  let ?c = "OperatorPanel_cleanup w"
  have dc: "deps ?c = deps w"
    by (simp add: OperatorPanel_cleanup_def deps_def)
  show ?thesis
  proof (cases "deps (fst (OperatorPanel_effect res ?c)) = deps w")
    case True
    with False show ?thesis
      by (simp add: OperatorPanel_commit_def split_beta)
  next
    case changed: False
    then have "\<not> truthy (token (fst (OperatorPanel_effect res ?c)))"
      using effect_deps_changed [of res ?c] dc by simp
    from effect_cleanup_again [OF this, of res] changed False show ?thesis
      by (simp add: OperatorPanel_commit_def split_beta)
  qed
qed

lemma effect_fields [simp]:
  "timers (fst (OperatorPanel_effect res w)) = timers w @ [15000]"
  "hidden (fst (OperatorPanel_effect res w)) = hidden w"
  "mounted (fst (OperatorPanel_effect res w)) = mounted w"
  "snd (OperatorPanel_effect res w) = snd (OperatorPanel_loadEscalations res w)"
  "token (fst (OperatorPanel_effect res w)) = token (fst (OperatorPanel_loadEscalations res w))"
  "op_token (fst (OperatorPanel_effect res w)) = op_token (fst (OperatorPanel_loadEscalations res w))"
  by (simp_all add: OperatorPanel_effect_def split_beta)

lemma cleanup_fields [simp]:
  "token (OperatorPanel_cleanup w) = token w"
  "op_token (OperatorPanel_cleanup w) = op_token w"
  "filter_op (OperatorPanel_cleanup w) = filter_op w"
  "mounted (OperatorPanel_cleanup w) = mounted w"
  "hidden (OperatorPanel_cleanup w) = hidden w"
  "timers (OperatorPanel_cleanup w) = butlast (timers w)"
  by (simp_all add: OperatorPanel_cleanup_def)

lemma commit_fields:
  "mounted (fst (OperatorPanel_commit old res w)) = mounted w"
  "timers (fst (OperatorPanel_commit old res w))
     = (if deps w = old then timers w else butlast (timers w) @ [15000])"
  "snd (OperatorPanel_commit old res w)
     = (if deps w = old then [] else snd (OperatorPanel_loadEscalations res (OperatorPanel_cleanup w)))"
  "token (fst (OperatorPanel_commit old res w))
     = (if deps w = old then token w
        else token (fst (OperatorPanel_loadEscalations res (OperatorPanel_cleanup w))))"
  "op_token (fst (OperatorPanel_commit old res w))
     = (if deps w = old then op_token w
        else op_token (fst (OperatorPanel_loadEscalations res (OperatorPanel_cleanup w))))"
  by (simp_all add: commit_eq)

lemma handle_keeps_mounted:
  "ev \<noteq> Mount \<Longrightarrow> ev \<noteq> Unmount \<Longrightarrow>
     mounted (fst (OperatorPanel_handle ev res w)) = mounted w
     \<and> timers (fst (OperatorPanel_handle ev res w)) = timers w"
  by (cases ev)
     (auto simp: OperatorPanel_handleLogin_def OperatorPanel_handleReply_def
        OperatorPanel_handleLogout_def split_beta Let_def split: sum.splits option.splits)

text \<open>
  Every event keeps the one timer: the cleanup that precedes each re-run of the effect
  clears the timer of the previous run, and the cleanup at unmount clears the last one.
\<close>

lemma step_timer_ok:
  assumes "timer_ok w"
  shows "timer_ok (fst (OperatorPanel_step e w))"
proof (cases e)
  case (Pair ev res)
  show ?thesis
  proof (cases "OperatorPanel_offered w ev")
    case False
    with Pair assms show ?thesis by (simp add: OperatorPanel_step_def)
  next
    case True
    consider "ev = Mount" | "ev = Unmount" | h where "ev = Visibility h"
      | "ev \<noteq> Mount" "ev \<noteq> Unmount" "mounted w"
      by (cases ev) (use True assms in \<open>auto simp: timer_ok_def split: if_splits\<close>)
    then show ?thesis
    proof cases
      case 1
      with True assms have "timers w = []"
        by (simp add: timer_ok_def)
      with Pair True 1 show ?thesis
        by (simp add: OperatorPanel_step_def split_beta Let_def timer_ok_def commit_fields
              OperatorPanel_mount_def)
    next
      case 2
      with True assms have "timers w = [15000]"
        by (simp add: timer_ok_def)
      with Pair True 2 show ?thesis
        by (simp add: OperatorPanel_step_def Let_def timer_ok_def)
    next
      case 3
      with Pair assms show ?thesis
        by (simp add: OperatorPanel_step_def Let_def timer_ok_def commit_eq deps_def)
    next
      case 4
      with assms have i: "timers w = [15000]"
        by (simp add: timer_ok_def)
      from handle_keeps_mounted [OF 4(1,2), of res w] Pair True 4 i show ?thesis
        by (simp add: OperatorPanel_step_def split_beta Let_def timer_ok_def commit_fields)
    qed
  qed
qed

lemma run_timer_ok: "timer_ok w \<Longrightarrow> timer_ok (fst (OperatorPanel_run es w))"
proof (induction es arbitrary: w)
  case Nil
  then show ?case by simp
next
  case (Cons e es)
  from Cons.IH [OF step_timer_ok [OF Cons.prems, of e]] show ?case
    by (simp add: split_beta)
qed

lemma step_logged_out:
  assumes "logged_out w" "\<not> is_login e"
  shows "logged_out (fst (OperatorPanel_step e w)) \<and> snd (OperatorPanel_step e w) = []"
proof (cases e)
  case (Pair ev res)
  have skip: "\<And>r v. \<not> truthy (token v) \<Longrightarrow> OperatorPanel_loadEscalations r v = (v, [])"
    by (rule loadEscalations_skip)
  from assms Pair show ?thesis
    by (cases ev)
       (auto simp: OperatorPanel_step_def Let_def split_beta commit_eq logged_out_def
          OperatorPanel_effect_def OperatorPanel_cleanup_def OperatorPanel_mount_def deps_def
          shows_login_form_def shows_reply_area_def skip)
qed

lemma run_logged_out:
  "logged_out w \<Longrightarrow> list_all (\<lambda>e. \<not> is_login e) es \<Longrightarrow>
     logged_out (fst (OperatorPanel_run es w)) \<and> snd (OperatorPanel_run es w) = []"
proof (induction es arbitrary: w)
  case Nil
  then show ?case by simp
next
  case (Cons e es)
  from Cons.prems have e: "\<not> is_login e" and es: "list_all (\<lambda>e. \<not> is_login e) es"
    by simp_all
  from step_logged_out [OF Cons.prems(1) e]
  have l: "logged_out (fst (OperatorPanel_step e w))" and r: "snd (OperatorPanel_step e w) = []"
    by simp_all
  from Cons.IH [OF l es] r show ?case
    by (simp add: split_beta)
qed

text \<open>
  While the panel is unmounted only the browser's visibility flag can change; nothing is
  requested.
\<close>

lemma step_unmounted:
  assumes "unmounted w" "\<not> is_mount e"
  shows "unmounted (fst (OperatorPanel_step e w)) \<and> snd (OperatorPanel_step e w) = []"
proof (cases e)
  case (Pair ev res)
  with assms show ?thesis
    by (cases ev) (auto simp: OperatorPanel_step_def unmounted_def commit_eq deps_def)
qed

lemma run_unmounted:
  "unmounted w \<Longrightarrow> list_all (\<lambda>e. \<not> is_mount e) es \<Longrightarrow>
     unmounted (fst (OperatorPanel_run es w)) \<and> snd (OperatorPanel_run es w) = []"
proof (induction es arbitrary: w)
  case Nil
  then show ?case by simp
next
  case (Cons e es)
  from Cons.prems have e: "\<not> is_mount e" and es: "list_all (\<lambda>e. \<not> is_mount e) es"
    by simp_all
  from step_unmounted [OF Cons.prems(1) e]
  have u: "unmounted (fst (OperatorPanel_step e w))" and r: "snd (OperatorPanel_step e w) = []"
    by simp_all
  from Cons.IH [OF u es] r show ?case
    by (simp add: split_beta)
qed

lemma auth_failure_is_failure: "auth_failure res \<Longrightarrow> \<exists>st. api_result res = Inl (ApiError st)"
  by (cases res) (auto simp: res_ok_def)

lemma tick_step:
  assumes "timers w \<noteq> []" "token w = Some tok" "tok \<noteq> []"
  shows "snd (OperatorPanel_step (Tick, res) w) = [ListReq tok (or_undefined (Some (filter_op w)))]"
    and "api_result res = Inl e \<Longrightarrow> logged_out (fst (OperatorPanel_step (Tick, res) w))"
proof -
  have skip: "\<And>r v. \<not> truthy (token v) \<Longrightarrow> OperatorPanel_loadEscalations r v = (v, [])"
    by (rule loadEscalations_skip)
  show "snd (OperatorPanel_step (Tick, res) w) = [ListReq tok (or_undefined (Some (filter_op w)))]"
    using assms
    by (auto simp: OperatorPanel_step_def Let_def split_beta commit_fields deps_def
          loadEscalations_req loadEscalations_token skip)
  show "api_result res = Inl e \<Longrightarrow> logged_out (fst (OperatorPanel_step (Tick, res) w))"
    using assms
    by (auto simp: OperatorPanel_step_def Let_def split_beta commit_fields deps_def logged_out_def
          loadEscalations_token skip)
qed

section \<open>A failing poll of the ticket list\<close>

text \<open>
  Claim C6. When a poll of \<open>listEscalations\<close> fails with an authentication failure, the
  operator client drops its stored credential: \<^verbatim>\<open>loadEscalations\<close> clears the token in
  the state and removes \<open>op_token\<close> from \<^verbatim>\<open>localStorage\<close>, so the login form is shown; it
  issues the failed request once, and from then on nothing the panel does (timer
  ticks, re-run effects, any event but a new login) issues a request, so the stale
  token is never sent again.
\<close>

theorem auth_failure_drops_credential:
  assumes "token w = Some tok" and "tok \<noteq> []" and "auth_failure res"
  shows "snd (OperatorPanel_loadEscalations res w) = [ListReq tok (or_undefined (Some (filter_op w)))]
       \<and> token (fst (OperatorPanel_loadEscalations res w)) = None
       \<and> op_token (fst (OperatorPanel_loadEscalations res w)) = None
       \<and> shows_login_form (fst (OperatorPanel_loadEscalations res w))
       \<and> (list_all (\<lambda>e. \<not> is_login e) es \<longrightarrow>
            snd (OperatorPanel_run es (fst (OperatorPanel_loadEscalations res w))) = [])
       \<and> (timers w \<noteq> [] \<longrightarrow>
            snd (OperatorPanel_step (Tick, res) w) = [ListReq tok (or_undefined (Some (filter_op w)))]
            \<and> shows_login_form (fst (OperatorPanel_step (Tick, res) w))
            \<and> (list_all (\<lambda>e. \<not> is_login e) es \<longrightarrow>
                 snd (OperatorPanel_run es (fst (OperatorPanel_step (Tick, res) w))) = []))"
proof -
  from assms(3) obtain st where fail: "api_result res = Inl (ApiError st)"
    using auth_failure_is_failure by blast
  have req: "snd (OperatorPanel_loadEscalations res w) = [ListReq tok (or_undefined (Some (filter_op w)))]"
    using assms(1,2) by (rule loadEscalations_req)
  have tok: "token (fst (OperatorPanel_loadEscalations res w)) = None"
    and ls: "op_token (fst (OperatorPanel_loadEscalations res w)) = None"
    using assms(1,2) fail by (simp_all add: loadEscalations_token)
  then have out: "logged_out (fst (OperatorPanel_loadEscalations res w))"
    by (simp add: logged_out_def)
  have form: "shows_login_form (fst (OperatorPanel_loadEscalations res w))"
    using tok by (simp add: shows_login_form_def)
  have quiet: "list_all (\<lambda>e. \<not> is_login e) es \<longrightarrow>
            snd (OperatorPanel_run es (fst (OperatorPanel_loadEscalations res w))) = []"
    using run_logged_out [OF out] by blast
  have tick: "timers w \<noteq> [] \<longrightarrow>
            snd (OperatorPanel_step (Tick, res) w) = [ListReq tok (or_undefined (Some (filter_op w)))]
            \<and> shows_login_form (fst (OperatorPanel_step (Tick, res) w))
            \<and> (list_all (\<lambda>e. \<not> is_login e) es \<longrightarrow>
                 snd (OperatorPanel_run es (fst (OperatorPanel_step (Tick, res) w))) = [])"
  proof
    assume i: "timers w \<noteq> []"
    note t = tick_step [OF i assms(1,2), of res]
    from t(2) [OF fail] have out': "logged_out (fst (OperatorPanel_step (Tick, res) w))" .
    then have "shows_login_form (fst (OperatorPanel_step (Tick, res) w))"
      by (simp add: logged_out_def shows_login_form_def)
    with t(1) run_logged_out [OF out']
    show "snd (OperatorPanel_step (Tick, res) w) = [ListReq tok (or_undefined (Some (filter_op w)))]
            \<and> shows_login_form (fst (OperatorPanel_step (Tick, res) w))
            \<and> (list_all (\<lambda>e. \<not> is_login e) es \<longrightarrow>
                 snd (OperatorPanel_run es (fst (OperatorPanel_step (Tick, res) w))) = [])"
      by blast
  qed
  show ?thesis
    using req tok ls form quiet tick by blast
qed

lemma sample_world_mounted_fields [simp]:
  "token sample_world_mounted = Some ''tok1''" "op_token sample_world_mounted = Some ''tok1''"
  "timers sample_world_mounted = [15000]" "mounted sample_world_mounted"
  "filter_op sample_world_mounted = []" "selectedId sample_world_mounted = Some ''e1''"
  "replyText sample_world_mounted = ''gotovo''" "closeTicket sample_world_mounted = False"
  "escalations sample_world_mounted = [sample_ticket]" "\<not> hidden sample_world_mounted"
  by (simp_all add: sample_world_mounted_def)

theorem auth_failure_drops_credential_witness:
  "token sample_world_mounted = Some ''tok1'' \<and> ''tok1'' \<noteq> []
   \<and> auth_failure (HttpResponse 401 (None :: EscalationList option))
   \<and> timers sample_world_mounted \<noteq> []
   \<and> list_all (\<lambda>e. \<not> is_login e) [(Tick, ok sample_list), (Unmount, NetworkError), (Mount, ok sample_list)]
   \<and> snd (OperatorPanel_step (Tick, HttpResponse 401 None) sample_world_mounted) = [ListReq ''tok1'' None]
   \<and> shows_login_form (fst (OperatorPanel_step (Tick, HttpResponse 401 None) sample_world_mounted))
   \<and> op_token (fst (OperatorPanel_loadEscalations (HttpResponse 401 None) sample_world_mounted)) = None
   \<and> snd (OperatorPanel_run [(Tick, ok sample_list), (Unmount, NetworkError), (Mount, ok sample_list)]
            (fst (OperatorPanel_step (Tick, HttpResponse 401 None) sample_world_mounted))) = []"
  using auth_failure_drops_credential
          [where w = sample_world_mounted and tok = "''tok1''" and res = "HttpResponse 401 None"
             and es = "[(Tick, ok sample_list), (Unmount, NetworkError), (Mount, ok sample_list)]"]
  by simp

text \<open>
  Claim C10. The operator panel drops its stored credential and returns to the login
  form on every failure of \<open>listEscalations\<close>. The failures are stated on the outcome of
  the \<^verbatim>\<open>fetch\<close> itself: the connection fails (\<open>NetworkError\<close>), the status lies outside
  200..299 (whatever the body holds), or the body does not parse. \<^verbatim>\<open>getEscalations\<close>
  throws on each of them (a rejected fetch as such, \<^verbatim>\<open>if (!res.ok) throw\<close>, a rejected
  \<^verbatim>\<open>res.json()\<close>), and the one \<^verbatim>\<open>catch\<close> of \<^verbatim>\<open>loadEscalations\<close> clears the token in the
  state and in \<^verbatim>\<open>localStorage\<close>: each such outcome leaves the panel exactly as a \<open>401\<close>
  does, for every event of the panel.
\<close>

theorem any_poll_failure_logs_out:
  assumes "token w = Some tok" and "tok \<noteq> []"
    and "res = NetworkError \<or> (res = HttpResponse st body \<and> (st < 200 \<or> 299 < st \<or> body = None))"
  shows "api_result (NetworkError :: EscalationList fetch_result) = Inl FetchFailed
       \<and> (st < 200 \<or> 299 < st \<longrightarrow> api_result (HttpResponse st body) = Inl (ApiError st))
       \<and> (200 \<le> st \<and> st \<le> 299 \<longrightarrow>
            api_result (HttpResponse st (None :: EscalationList option)) = Inl JsonError)
       \<and> isl (api_result res)
       \<and> OperatorPanel_loadEscalations res w
           = (w\<lparr>token := None, loading_op := False, op_token := None\<rparr>,
              [ListReq tok (or_undefined (Some (filter_op w)))])
       \<and> OperatorPanel_loadEscalations res w = OperatorPanel_loadEscalations (HttpResponse 401 None) w
       \<and> shows_login_form (fst (OperatorPanel_loadEscalations res w))
       \<and> OperatorPanel_step (ev, res) v = OperatorPanel_step (ev, HttpResponse 401 None) v"
proof -
  have cls: "api_result (NetworkError :: EscalationList fetch_result) = Inl FetchFailed"
    "st < 200 \<or> 299 < st \<longrightarrow> api_result (HttpResponse st body) = Inl (ApiError st)"
    "200 \<le> st \<and> st \<le> 299 \<longrightarrow>
       api_result (HttpResponse st (None :: EscalationList option)) = Inl JsonError"
    by (auto simp: res_ok_def)
  from assms(3) have "isl (api_result res)"
    by (auto simp: res_ok_def)
  then obtain e where fail: "api_result res = Inl e"
    by (cases "api_result res") auto
  have f401: "api_result (HttpResponse 401 (None :: EscalationList option)) = Inl (ApiError 401)"
    by (simp add: res_ok_def)
  have same: "\<And>u. OperatorPanel_loadEscalations res u
                 = OperatorPanel_loadEscalations (HttpResponse 401 None) u"
    using fail f401
    by (simp add: OperatorPanel_loadEscalations_def Let_def split: option.splits)
  have eff: "\<And>u. OperatorPanel_effect res u = OperatorPanel_effect (HttpResponse 401 None) u"
    by (simp add: OperatorPanel_effect_def same)
  have com: "\<And>old u. OperatorPanel_commit old res u = OperatorPanel_commit old (HttpResponse 401 None) u"
    by (simp add: commit_eq eff)
  have han: "\<And>u. OperatorPanel_handle ev res u = OperatorPanel_handle ev (HttpResponse 401 None) u"
    by (cases ev)
       (simp_all add: eff same OperatorPanel_handleReply_def Let_def split_beta
          split: option.splits sum.splits)
  have step: "OperatorPanel_step (ev, res) v = OperatorPanel_step (ev, HttpResponse 401 None) v"
    by (simp add: OperatorPanel_step_def han com Let_def split_beta)
  have form: "shows_login_form (fst (OperatorPanel_loadEscalations res w))"
    using assms(1,2) fail by (simp add: loadEscalations_fail shows_login_form_def)
  have isl: "isl (api_result res)"
    using fail by simp
  show ?thesis
    using cls isl loadEscalations_fail [OF assms(1,2) fail] same [of w] form step by simp
qed

theorem any_poll_failure_logs_out_witness:
  "token sample_world_mounted = Some ''tok1'' \<and> ''tok1'' \<noteq> []
   \<and> api_result (HttpResponse 503 (Some sample_list)) = Inl (ApiError 503)
   \<and> api_result (HttpResponse 200 (None :: EscalationList option)) = Inl JsonError
   \<and> OperatorPanel_loadEscalations NetworkError sample_world_mounted
       = (sample_world_mounted\<lparr>token := None, loading_op := False, op_token := None\<rparr>,
          [ListReq ''tok1'' None])
   \<and> OperatorPanel_loadEscalations (HttpResponse 503 (Some sample_list)) sample_world_mounted
       = (sample_world_mounted\<lparr>token := None, loading_op := False, op_token := None\<rparr>,
          [ListReq ''tok1'' None])
   \<and> OperatorPanel_loadEscalations (HttpResponse 200 None) sample_world_mounted
       = (sample_world_mounted\<lparr>token := None, loading_op := False, op_token := None\<rparr>,
          [ListReq ''tok1'' None])
   \<and> shows_login_form (fst (OperatorPanel_loadEscalations (HttpResponse 503 (Some sample_list))
                               sample_world_mounted))
   \<and> OperatorPanel_step (Tick, HttpResponse 503 (Some sample_list)) sample_world_mounted
       = OperatorPanel_step (Tick, HttpResponse 401 None) sample_world_mounted
   \<and> OperatorPanel_step (Tick, NetworkError) sample_world_mounted
       = OperatorPanel_step (Tick, HttpResponse 401 None) sample_world_mounted"
  using any_poll_failure_logs_out
          [where w = sample_world_mounted and tok = "''tok1''" and res = NetworkError
             and st = 200 and body = None and ev = Tick and v = sample_world_mounted]
        any_poll_failure_logs_out
          [where w = sample_world_mounted and tok = "''tok1''"
             and res = "HttpResponse 503 (Some sample_list)"
             and st = 503 and body = "Some sample_list" and ev = Tick and v = sample_world_mounted]
        any_poll_failure_logs_out
          [where w = sample_world_mounted and tok = "''tok1''" and res = "HttpResponse 200 None"
             and st = 200 and body = None and ev = Tick and v = sample_world_mounted]
  by (simp add: res_ok_def shows_login_form_def)

section \<open>The polling schedule of the operator panel\<close>

lemma effect_filter [simp]:
  "filter_op (fst (OperatorPanel_effect res w)) = filter_op w"
  by (simp add: OperatorPanel_effect_def split_beta)

lemma mount_step:
  assumes "\<not> mounted w" "op_token w = Some tok" "tok \<noteq> []"
  shows "snd (OperatorPanel_step (Mount, res) w) = [ListReq tok None]"
    and "timers (fst (OperatorPanel_step (Mount, res) w)) = timers w @ [15000]"
proof -
  have skip: "\<And>r v. \<not> truthy (token v) \<Longrightarrow> OperatorPanel_loadEscalations r v = (v, [])"
    by (rule loadEscalations_skip)
  have m: "token (OperatorPanel_mount w) = Some tok" "filter_op (OperatorPanel_mount w) = []"
    "timers (OperatorPanel_mount w) = timers w"
    using assms by (simp_all add: OperatorPanel_mount_def)
  show "snd (OperatorPanel_step (Mount, res) w) = [ListReq tok None]"
    using assms loadEscalations_req [OF m(1) assms(3), of res] m
    by (auto simp: OperatorPanel_step_def Let_def split_beta commit_fields deps_def
          loadEscalations_token skip)
  show "timers (fst (OperatorPanel_step (Mount, res) w)) = timers w @ [15000]"
    using assms m(3) by (simp add: OperatorPanel_step_def Let_def split_beta commit_fields)
qed

lemma login_step:
  assumes "mounted w" "\<not> truthy (token w)" "api_result lres = Inr r" "token_l r \<noteq> []"
  shows "snd (OperatorPanel_step (SubmitLogin lres, res) w)
           = [LoginReq (username w) (password w),
              ListReq (token_l r) (or_undefined (Some (filter_op w)))]"
proof -
  let ?w1 = "w\<lparr>token := Some (token_l r), loginError := [], op_token := Some (token_l r)\<rparr>"
  have h: "OperatorPanel_handleLogin lres w = (?w1, [LoginReq (username w) (password w)])"
    using assms(3) by (simp add: OperatorPanel_handleLogin_def Let_def ApiClient_operatorLogin_def)
  have d: "deps ?w1 \<noteq> deps w"
    using assms(2,4) by (cases "token w") (auto simp: deps_def)
  have c: "token (OperatorPanel_cleanup ?w1) = Some (token_l r)"
    by simp
  from loadEscalations_req [OF c assms(4), of res] h d assms(1,2) show ?thesis
    by (simp add: OperatorPanel_step_def Let_def split_beta commit_fields shows_login_form_def)
qed

lemma reply_step:
  assumes "mounted w" "shows_reply_area w" "trim (replyText w) \<noteq> []"
    and "token w = Some tok" "selectedId w = Some sel" "sel \<noteq> []"
    and "api_result_void rres = Inr ()"
  shows "snd (OperatorPanel_step (ClickReply rres, res) w)
           = [ReplyReq tok sel (replyText w) (closeTicket w),
              ListReq tok (or_undefined (Some (filter_op w)))]"
proof -
  have skip: "\<And>r v. \<not> truthy (token v) \<Longrightarrow> OperatorPanel_loadEscalations r v = (v, [])"
    by (rule loadEscalations_skip)
  from assms(2,4) have t: "tok \<noteq> []"
    by (auto simp: shows_reply_area_def shows_login_form_def)
  let ?u = "w\<lparr>replyText := [], closeTicket := False\<rparr>"
  have tu: "token ?u = Some tok" by (simp add: assms(4))
  have h: "OperatorPanel_handleReply rres res w
             = (fst (OperatorPanel_loadEscalations res ?u),
                ReplyReq tok sel (replyText w) (closeTicket w)
                  # snd (OperatorPanel_loadEscalations res ?u))"
    using assms t
    by (simp add: OperatorPanel_handleReply_def Let_def split_beta ApiClient_operatorReply_def)
  from loadEscalations_req [OF tu t, of res] h assms(1,2,3,4) t show ?thesis
    by (auto simp: OperatorPanel_step_def Let_def split_beta commit_fields deps_def
          loadEscalations_token skip)
qed

lemma unmount_step:
  assumes "mounted w" "timer_ok w"
  shows "unmounted (fst (OperatorPanel_step (Unmount, res) w))"
    and "snd (OperatorPanel_step (Unmount, res) w) = []"
  using assms by (simp_all add: OperatorPanel_step_def Let_def unmounted_def timer_ok_def)

lemma visibility_step:
  "OperatorPanel_step (Visibility h, res) w = (w\<lparr>hidden := h\<rparr>, [])"
  by (simp add: OperatorPanel_step_def Let_def commit_eq deps_def)

lemma sample_world_fields [simp]:
  "\<not> mounted sample_world" "op_token sample_world = Some ''tok1''" "timers sample_world = []"
  "mounted sample_world_login" "token sample_world_login = None"
  "timers sample_world_login = [15000]" "username sample_world_login = ''op''"
  "password sample_world_login = ''pw''" "filter_op sample_world_login = []"
  by (simp_all add: sample_world_def sample_world_login_def)

lemma sample_reply_area: "shows_reply_area sample_world_mounted" "trim ''gotovo'' \<noteq> []"
  by (simp_all add: shows_reply_area_def shows_login_form_def selectedEscalation_def
        sample_ticket_def trim_def js_whitespace_def)

text \<open>
  Claim C7, as stated: the panel cancels polling when it is not visible. The component
  has no notion of visibility: it registers no \<^verbatim>\<open>visibilitychange\<close> listener and never
  reads \<^verbatim>\<open>document.hidden\<close>; the only \<^verbatim>\<open>clearInterval\<close> is the cleanup of the effect. When
  the tab of a mounted, logged-in panel goes to the background the timer stays
  registered, and its next tick issues the \<open>listEscalations\<close> request as before.
\<close>

theorem hidden_panel_keeps_polling:
  "hidden (fst (OperatorPanel_step (Visibility True, ok sample_list) sample_world_mounted))
   \<and> timers (fst (OperatorPanel_step (Visibility True, ok sample_list) sample_world_mounted)) = [15000]
   \<and> OperatorPanel_offered
        (fst (OperatorPanel_step (Visibility True, ok sample_list) sample_world_mounted)) Tick
   \<and> snd (OperatorPanel_run [(Visibility True, ok sample_list), (Tick, ok sample_list)]
            sample_world_mounted)
       = [ListReq ''tok1'' None]"
proof -
  let ?h = "sample_world_mounted\<lparr>hidden := True\<rparr>"
  have t: "timers ?h \<noteq> []" "token ?h = Some ''tok1''" "(''tok1'' :: string) \<noteq> []"
    by simp_all
  have "snd (OperatorPanel_step (Tick, ok sample_list) ?h) = [ListReq ''tok1'' None]"
    using tick_step(1) [OF t, of "ok sample_list"] by simp
  then show ?thesis
    by (simp add: visibility_step split_beta)
qed

text \<open>
  Claim C7, amended: the operator panel polls the full ticket collection on a fixed
  15-second interval, refreshes on demand after a local mutation (login, reply), and
  cancels polling when the panel is unmounted, and only then: a hidden tab changes
  nothing. In terms of the component: over every sequence of events exactly one
  interval timer is registered while the panel is mounted, with period 15000 ms, and
  none otherwise; mounting with a stored token and every tick of the timer with a
  token issue one \<open>listEscalations\<close> request (with the status filter in force); a
  successful login and a successful reply are each followed at once by such a request;
  a change of visibility changes nothing but the browser's flag, and a tick on a hidden
  tab issues the request all the same; unmounting clears the timer, after which nothing
  is requested until the panel is mounted again.
\<close>

theorem polling_schedule:
  assumes "timer_ok w"
  shows "timer_ok (fst (OperatorPanel_run es w))
       \<and> (\<not> mounted w \<and> op_token w = Some tok \<and> tok \<noteq> [] \<longrightarrow>
            snd (OperatorPanel_step (Mount, res) w) = [ListReq tok None]
            \<and> timers (fst (OperatorPanel_step (Mount, res) w)) = [15000])
       \<and> (mounted w \<and> token w = Some tok \<and> tok \<noteq> [] \<longrightarrow>
            timers w = [15000]
            \<and> snd (OperatorPanel_step (Tick, res) w)
                = [ListReq tok (or_undefined (Some (filter_op w)))])
       \<and> (mounted w \<and> \<not> truthy (token w) \<and> api_result lres = Inr r \<and> token_l r \<noteq> [] \<longrightarrow>
            snd (OperatorPanel_step (SubmitLogin lres, res) w)
              = [LoginReq (username w) (password w),
                 ListReq (token_l r) (or_undefined (Some (filter_op w)))])
       \<and> (mounted w \<and> shows_reply_area w \<and> trim (replyText w) \<noteq> [] \<and> token w = Some tok
            \<and> selectedId w = Some sel \<and> sel \<noteq> [] \<and> api_result_void rres = Inr () \<longrightarrow>
            snd (OperatorPanel_step (ClickReply rres, res) w)
              = [ReplyReq tok sel (replyText w) (closeTicket w),
                 ListReq tok (or_undefined (Some (filter_op w)))])
       \<and> OperatorPanel_step (Visibility h, res) w = (w\<lparr>hidden := h\<rparr>, [])
       \<and> (mounted w \<and> token w = Some tok \<and> tok \<noteq> [] \<longrightarrow>
            snd (OperatorPanel_step (Tick, res) (fst (OperatorPanel_step (Visibility True, res) w)))
              = [ListReq tok (or_undefined (Some (filter_op w)))])
       \<and> (mounted w \<longrightarrow>
            timers (fst (OperatorPanel_step (Unmount, res) w)) = []
            \<and> (list_all (\<lambda>e. \<not> is_mount e) es \<longrightarrow>
                 snd (OperatorPanel_run es (fst (OperatorPanel_step (Unmount, res) w))) = []))"
proof -
  have timer: "timer_ok (fst (OperatorPanel_run es w))"
    using assms by (rule run_timer_ok)
  have mount: "\<not> mounted w \<and> op_token w = Some tok \<and> tok \<noteq> [] \<longrightarrow>
            snd (OperatorPanel_step (Mount, res) w) = [ListReq tok None]
            \<and> timers (fst (OperatorPanel_step (Mount, res) w)) = [15000]"
  proof
    assume a: "\<not> mounted w \<and> op_token w = Some tok \<and> tok \<noteq> []"
    with assms have "timers w = []"
      by (simp add: timer_ok_def)
    with a mount_step [of w tok res]
    show "snd (OperatorPanel_step (Mount, res) w) = [ListReq tok None]
            \<and> timers (fst (OperatorPanel_step (Mount, res) w)) = [15000]"
      by simp
  qed
  have tick: "mounted w \<and> token w = Some tok \<and> tok \<noteq> [] \<longrightarrow>
            timers w = [15000]
            \<and> snd (OperatorPanel_step (Tick, res) w)
                = [ListReq tok (or_undefined (Some (filter_op w)))]"
  proof
    assume a: "mounted w \<and> token w = Some tok \<and> tok \<noteq> []"
    with assms have i: "timers w = [15000]"
      by (simp add: timer_ok_def)
    then have "timers w \<noteq> []" by simp
    from tick_step(1) [OF this, of tok res] a i
    show "timers w = [15000]
            \<and> snd (OperatorPanel_step (Tick, res) w)
                = [ListReq tok (or_undefined (Some (filter_op w)))]"
      by simp
  qed
  have login: "mounted w \<and> \<not> truthy (token w) \<and> api_result lres = Inr r \<and> token_l r \<noteq> [] \<longrightarrow>
            snd (OperatorPanel_step (SubmitLogin lres, res) w)
              = [LoginReq (username w) (password w),
                 ListReq (token_l r) (or_undefined (Some (filter_op w)))]"
    using login_step [of w lres r res] by blast
  have reply: "mounted w \<and> shows_reply_area w \<and> trim (replyText w) \<noteq> [] \<and> token w = Some tok
            \<and> selectedId w = Some sel \<and> sel \<noteq> [] \<and> api_result_void rres = Inr () \<longrightarrow>
            snd (OperatorPanel_step (ClickReply rres, res) w)
              = [ReplyReq tok sel (replyText w) (closeTicket w),
                 ListReq tok (or_undefined (Some (filter_op w)))]"
    using reply_step [of w tok sel rres res] by blast
  have vis: "OperatorPanel_step (Visibility h, res) w = (w\<lparr>hidden := h\<rparr>, [])"
    by (rule visibility_step)
  have htick: "mounted w \<and> token w = Some tok \<and> tok \<noteq> [] \<longrightarrow>
            snd (OperatorPanel_step (Tick, res) (fst (OperatorPanel_step (Visibility True, res) w)))
              = [ListReq tok (or_undefined (Some (filter_op w)))]"
  proof
    assume a: "mounted w \<and> token w = Some tok \<and> tok \<noteq> []"
    with assms have "timers (w\<lparr>hidden := True\<rparr>) \<noteq> []"
      by (simp add: timer_ok_def)
    from tick_step(1) [OF this, of tok res] a
    show "snd (OperatorPanel_step (Tick, res) (fst (OperatorPanel_step (Visibility True, res) w)))
              = [ListReq tok (or_undefined (Some (filter_op w)))]"
      by (simp add: visibility_step)
  qed
  have unmount: "mounted w \<longrightarrow>
            timers (fst (OperatorPanel_step (Unmount, res) w)) = []
            \<and> (list_all (\<lambda>e. \<not> is_mount e) es \<longrightarrow>
                 snd (OperatorPanel_run es (fst (OperatorPanel_step (Unmount, res) w))) = [])"
  proof
    assume m: "mounted w"
    note u = unmount_step(1) [OF m assms, of res]
    from u run_unmounted [OF u, of es]
    show "timers (fst (OperatorPanel_step (Unmount, res) w)) = []
            \<and> (list_all (\<lambda>e. \<not> is_mount e) es \<longrightarrow>
                 snd (OperatorPanel_run es (fst (OperatorPanel_step (Unmount, res) w))) = [])"
      by (simp add: unmounted_def)
  qed
  show ?thesis
    using timer mount tick login reply vis htick unmount by blast
qed

theorem polling_schedule_witness:
  "timer_ok sample_world \<and> timer_ok sample_world_mounted \<and> timer_ok sample_world_login
   \<and> timer_ok (fst (OperatorPanel_run [(Mount, ok sample_list), (Tick, NetworkError)] sample_world))
   \<and> \<not> mounted sample_world \<and> op_token sample_world = Some ''tok1''
   \<and> snd (OperatorPanel_step (Mount, ok sample_list) sample_world) = [ListReq ''tok1'' None]
   \<and> timers (fst (OperatorPanel_step (Mount, ok sample_list) sample_world)) = [15000]
   \<and> mounted sample_world_mounted \<and> token sample_world_mounted = Some ''tok1''
   \<and> snd (OperatorPanel_step (Tick, ok sample_list) sample_world_mounted) = [ListReq ''tok1'' None]
   \<and> mounted sample_world_login \<and> \<not> truthy (token sample_world_login)
   \<and> api_result (ok sample_login) = Inr sample_login \<and> token_l sample_login \<noteq> []
   \<and> snd (OperatorPanel_step (SubmitLogin (ok sample_login), ok sample_list) sample_world_login)
       = [LoginReq ''op'' ''pw'', ListReq ''tok2'' None]
   \<and> shows_reply_area sample_world_mounted \<and> trim (replyText sample_world_mounted) \<noteq> []
   \<and> selectedId sample_world_mounted = Some ''e1'' \<and> api_result_void (ok ()) = Inr ()
   \<and> snd (OperatorPanel_step (ClickReply (ok ()), ok sample_list) sample_world_mounted)
       = [ReplyReq ''tok1'' ''e1'' ''gotovo'' False, ListReq ''tok1'' None]
   \<and> snd (OperatorPanel_step (Tick, ok sample_list)
            (fst (OperatorPanel_step (Visibility True, ok sample_list) sample_world_mounted)))
       = [ListReq ''tok1'' None]
   \<and> timers (fst (OperatorPanel_step (Unmount, NetworkError) sample_world_mounted)) = []
   \<and> list_all (\<lambda>e. \<not> is_mount e) [(Tick, ok sample_list), (Visibility True, ok sample_list)]
   \<and> snd (OperatorPanel_run [(Tick, ok sample_list), (Visibility True, ok sample_list)]
            (fst (OperatorPanel_step (Unmount, NetworkError) sample_world_mounted))) = []"
proof -
  have ok1: "timer_ok sample_world" and ok2: "timer_ok sample_world_mounted"
    and ok3: "timer_ok sample_world_login"
    by (simp_all add: timer_ok_def)
  note a = polling_schedule
             [OF ok1, where tok = "''tok1''" and res = "ok sample_list" and h = True
                and es = "[(Mount, ok sample_list), (Tick, NetworkError)]"]
  note b = polling_schedule
             [OF ok2, where tok = "''tok1''" and res = "ok sample_list" and sel = "''e1''" and h = False
                and rres = "ok ()" and es = "[(Tick, ok sample_list), (Visibility True, ok sample_list)]"]
  note c = polling_schedule
             [OF ok3, where lres = "ok sample_login" and r = sample_login and res = "ok sample_list"
                and h = True]
  note d = polling_schedule
             [OF ok2, where res = NetworkError and h = True
                and es = "[(Tick, ok sample_list), (Visibility True, ok sample_list)]"]
  have login: "token_l sample_login = ''tok2''"
    by (simp add: sample_login_def)
  show ?thesis
    using ok1 ok2 ok3 a b c d login sample_reply_area
    by simp
qed

end
